theory Spec2Isabelle
  imports Main "HOL-Library.Word"
begin

section \<open>Data model (package models)\<close>

text \<open>
  Go's \<^verbatim>\<open>int\<close> is taken at 64 bits (the service is built for linux on a 64-bit
  target): addition, subtraction and multiplication wrap, comparisons are signed.
  A \<^verbatim>\<open>uuid.UUID\<close> is an array of 16 bytes, read here as one 128-bit word;
  \<^verbatim>\<open>uuid.Nil\<close> is the all-zero value. The wall-clock values stored in
  \<^verbatim>\<open>CreatedAt\<close> and \<^verbatim>\<open>UpdatedAt\<close> are opaque instants; every operation that
  calls \<^verbatim>\<open>time.Now()\<close> takes the instant as an argument.
\<close>

type_synonym go_int = "64 word"
type_synonym uuid = "128 word"
type_synonym instant = nat

definition uuid_Nil :: uuid where
  "uuid_Nil = 0"

record Subscription =
  ID :: go_int
  ServiceName :: string
  Price :: go_int
  UserID :: uuid
  StartDate :: string
  EndDate :: "string option"
  CreatedAt :: instant
  UpdatedAt :: instant

text \<open>The zero value \<^verbatim>\<open>models.Subscription{}\<close>.\<close>

definition Subscription_zero :: Subscription where
  "Subscription_zero =
     \<lparr>ID = 0, ServiceName = [], Price = 0, UserID = uuid_Nil, StartDate = [],
      EndDate = None, CreatedAt = 0, UpdatedAt = 0\<rparr>"

text \<open>
  \<^verbatim>\<open>UpdateSubscriptionRequest\<close>: only \<^verbatim>\<open>Price\<close> and \<^verbatim>\<open>EndDate\<close> are pointers; an
  absent \<^verbatim>\<open>service_name\<close>, \<^verbatim>\<open>user_id\<close> or \<^verbatim>\<open>start_date\<close> decodes to the zero value
  of its type, and an absent \<^verbatim>\<open>end_date\<close> decodes to the same nil pointer as an
  explicit JSON null.
\<close>

record UpdateSubscriptionRequest =
  upd_ServiceName :: string
  upd_Price :: "go_int option"
  upd_UserID :: uuid
  upd_StartDate :: string
  upd_EndDate :: "string option"

record CalculateCostRequest =
  calc_UserID :: "uuid option"
  calc_ServiceName :: "string option"
  calc_StartPeriod :: string
  calc_EndPeriod :: string

datatype error =
    ErrNotFound                \<comment> \<open>"subscription not found"\<close>
  | ErrInvalidStartPeriod      \<comment> \<open>"invalid start period format"\<close>
  | ErrInvalidEndPeriod        \<comment> \<open>"invalid end period format"\<close>
  | ErrStartAfterEnd           \<comment> \<open>"start period cannot be after end period"\<close>

section \<open>Library functions the repository calls\<close>

subsection \<open>time.Parse with the layout 01-2006\<close>

text \<open>
  With the layout \<^verbatim>\<open>"01-2006"\<close> the standard library reads a two-digit month
  (both characters must be digits, the number must lie in 1..12), the literal
  \<^verbatim>\<open>-\<close>, a year of exactly four digits, and refuses any text left over. The day,
  the clock and the zone are not in the layout, so the result is midnight UTC on the
  first day of that month: a value fixed by its year and month. \<^verbatim>\<open>After\<close> and
  \<^verbatim>\<open>Before\<close> compare instants, which for such values is the order on
  (year, month).
\<close>

datatype Time = Date (Year: int) (Month: int)

definition isDigit :: "char \<Rightarrow> bool" where
  "isDigit c = (48 \<le> (of_char c :: nat) \<and> (of_char c :: nat) \<le> 57)"

definition digitVal :: "char \<Rightarrow> nat" where
  "digitVal c = of_char c - 48"

fun time_Parse :: "string \<Rightarrow> Time option" where
  "time_Parse [m1, m2, d, y1, y2, y3, y4] =
     (if isDigit m1 \<and> isDigit m2 \<and> d = CHR ''-'' \<and>
         isDigit y1 \<and> isDigit y2 \<and> isDigit y3 \<and> isDigit y4
      then
        let month = int (digitVal m1 * 10 + digitVal m2);
            year = int (digitVal y1 * 1000 + digitVal y2 * 100 + digitVal y3 * 10 + digitVal y4)
        in if month \<le> 0 \<or> 12 < month then None else Some (Date year month)
      else None)"
| "time_Parse _ = None"

declare time_Parse.simps [simp del]

definition After :: "Time \<Rightarrow> Time \<Rightarrow> bool" where
  "After t u = (Year u < Year t \<or> (Year t = Year u \<and> Month u < Month t))"

definition Before :: "Time \<Rightarrow> Time \<Rightarrow> bool" where
  "Before t u = (Year t < Year u \<or> (Year t = Year u \<and> Month t < Month u))"

text \<open>\<^verbatim>\<open>t.Year()\<close> and \<^verbatim>\<open>t.Month()\<close> as Go integers.\<close>

definition go_Year :: "Time \<Rightarrow> go_int" where
  "go_Year t = of_int (Year t)"

definition go_Month :: "Time \<Rightarrow> go_int" where
  "go_Month t = of_int (Month t)"

subsection \<open>strconv.Itoa and strconv.Atoi\<close>

text \<open>The digit table of \<^verbatim>\<open>strconv\<close>, read at an index below ten.\<close>

definition digitChar :: "nat \<Rightarrow> char" where
  "digitChar d = ''0123456789'' ! d"

function decimal :: "nat \<Rightarrow> string" where
  "decimal n = (if n < 10 then [digitChar n] else decimal (n div 10) @ [digitChar (n mod 10)])"
  by pat_completeness auto
termination
  by (relation "measure id") auto

declare decimal.simps [simp del]

text \<open>\<^verbatim>\<open>strconv.Itoa\<close>: the decimal digits of the value, after a minus sign when negative.\<close>

definition Itoa :: "go_int \<Rightarrow> string" where
  "Itoa i = (if sint i < 0 then CHR ''-'' # decimal (nat (- sint i)) else decimal (nat (sint i)))"

datatype NumError = ErrSyntax | ErrRange

text \<open>
  The digit loop of \<^verbatim>\<open>strconv.ParseUint\<close> in base 10 at 64 bits: a character that
  is no digit is a syntax error where the loop meets it; a digit that takes the
  number past \<^verbatim>\<open>2^64 - 1\<close> is a range error at once, whatever follows it.
\<close>

fun ParseUint :: "string \<Rightarrow> nat \<Rightarrow> NumError + nat" where
  "ParseUint [] n = Inr n"
| "ParseUint (c # cs) n =
     (if \<not> isDigit c then Inl ErrSyntax
      else if 2 ^ 64 - 1 < n * 10 + digitVal c then Inl ErrRange
      else ParseUint cs (n * 10 + digitVal c))"

text \<open>
  \<^verbatim>\<open>strconv.Atoi\<close>: an optional sign, then at least one character, read by the
  digit loop. A syntax error has the value 0. A range error of the loop, or a
  number outside the signed 64-bit range, is a range error whose value is the
  bound on the side of the sign. (The short path \<^verbatim>\<open>Atoi\<close> takes for strings under
  19 bytes gives the same results: such strings cannot overflow.)
\<close>

definition Atoi :: "string \<Rightarrow> go_int \<times> NumError option" where
  "Atoi s =
     (case s of
        [] \<Rightarrow> (0, Some ErrSyntax)
      | c # r \<Rightarrow>
          let neg = (c = CHR ''-'');
              ds = (if c = CHR ''-'' \<or> c = CHR ''+'' then r else s)
          in if ds = [] then (0, Some ErrSyntax)
             else (case ParseUint ds 0 of
                     Inl ErrSyntax \<Rightarrow> (0, Some ErrSyntax)
                   | Inl ErrRange \<Rightarrow>
                       (if neg then of_int (- (2 ^ 63)) else of_int (2 ^ 63 - 1), Some ErrRange)
                   | Inr un \<Rightarrow>
                       if \<not> neg \<and> 2 ^ 63 \<le> un then (of_int (2 ^ 63 - 1), Some ErrRange)
                       else if neg \<and> 2 ^ 63 < un then (of_int (- (2 ^ 63)), Some ErrRange)
                       else (of_int (if neg then - int un else int un), None)))"

section \<open>The in-memory repository (MockSubscriptionRepository)\<close>

text \<open>
  The Go map from id strings to records is an association list with one entry per
  key; \<^verbatim>\<open>put\<close> is the assignment \<^verbatim>\<open>m[k] = v\<close>, \<^verbatim>\<open>map_of\<close> the lookup. Go
  ranges over a map in no fixed order; the list order stands for one such order.
  \<^verbatim>\<open>uuid.Parse\<close> belongs to a library outside the repository and is an argument
  \<^verbatim>\<open>P\<close> of the operations that call it: \<^verbatim>\<open>P s = None\<close> is a parse error. The
  parameter \<^verbatim>\<open>id\<close> of the source is written \<^verbatim>\<open>idS\<close> (a string) here and
  \<^verbatim>\<open>idN\<close> (an integer) in the database repository. A method that returns a value
  and an error returns a sum; one that also changes the repository returns the new
  repository beside it.
\<close>

type_synonym store = "(string \<times> Subscription) list"

definition NewMockSubscriptionRepository :: store where
  "NewMockSubscriptionRepository = []"

fun put :: "string \<Rightarrow> Subscription \<Rightarrow> store \<Rightarrow> store" where
  "put k v [] = [(k, v)]"
| "put k v ((k', v') # kvs) = (if k' = k then (k, v) # kvs else (k', v') # put k v kvs)"

definition Mock_Create :: "store \<Rightarrow> Subscription \<Rightarrow> instant \<Rightarrow> Subscription \<times> store" where
  "Mock_Create r subscription now =
     (let s1 = (if ID subscription = 0
                then subscription\<lparr>ID := of_nat (length r) + 1\<rparr>
                else subscription);
          s2 = s1\<lparr>CreatedAt := now, UpdatedAt := now\<rparr>
      in (s2, put (Itoa (ID s2)) s2 r))"

definition Mock_GetByID :: "store \<Rightarrow> string \<Rightarrow> error + Subscription" where
  "Mock_GetByID r idS =
     (case map_of r idS of
        None \<Rightarrow> Inl ErrNotFound
      | Some subscription \<Rightarrow> Inr subscription)"

fun Mock_List_loop ::
  "(string \<Rightarrow> uuid option) \<Rightarrow> string \<Rightarrow> string \<Rightarrow> store \<Rightarrow> Subscription list \<Rightarrow> Subscription list"
where
  "Mock_List_loop P userID serviceName [] result = result"
| "Mock_List_loop P userID serviceName ((k, sub) # rest) result =
     (if userID \<noteq> [] \<and> (case P userID of None \<Rightarrow> True | Some uid \<Rightarrow> UserID sub \<noteq> uid)
      then Mock_List_loop P userID serviceName rest result
      else if serviceName \<noteq> [] \<and> ServiceName sub \<noteq> serviceName
      then Mock_List_loop P userID serviceName rest result
      else Mock_List_loop P userID serviceName rest (result @ [sub]))"

definition Mock_List ::
  "(string \<Rightarrow> uuid option) \<Rightarrow> store \<Rightarrow> string \<Rightarrow> string \<Rightarrow> error + Subscription list"
where
  "Mock_List P r userID serviceName = Inr (Mock_List_loop P userID serviceName r [])"

definition Mock_Update ::
  "store \<Rightarrow> string \<Rightarrow> Subscription \<Rightarrow> instant \<Rightarrow> (error + Subscription) \<times> store"
where
  "Mock_Update r idS subscription now =
     (case map_of r idS of
        None \<Rightarrow> (Inl ErrNotFound, r)
      | Some _ \<Rightarrow>
          let idInt = fst (Atoi idS);
              s = subscription\<lparr>ID := idInt, UpdatedAt := now\<rparr>
          in (Inr s, put idS s r))"

definition Mock_Delete :: "store \<Rightarrow> string \<Rightarrow> error option \<times> store" where
  "Mock_Delete r idS =
     (case map_of r idS of
        None \<Rightarrow> (Some ErrNotFound, r)
      | Some _ \<Rightarrow> (None, filter (\<lambda>kv. fst kv \<noteq> idS) r))"

fun Mock_Cost_loop :: "Time \<Rightarrow> Time \<Rightarrow> Subscription list \<Rightarrow> go_int \<Rightarrow> go_int" where
  "Mock_Cost_loop startDate endDate [] totalCost = totalCost"
| "Mock_Cost_loop startDate endDate (sub # subs) totalCost =
     (case time_Parse (StartDate sub) of
        None \<Rightarrow> Mock_Cost_loop startDate endDate subs totalCost
      | Some subStartDate \<Rightarrow>
          if After subStartDate endDate
          then Mock_Cost_loop startDate endDate subs totalCost
          else
            let effectiveStartDate =
                  (if After subStartDate startDate then subStartDate else startDate);
                effectiveEndDate =
                  (case EndDate sub of
                     None \<Rightarrow> endDate
                   | Some e \<Rightarrow>
                       (case time_Parse e of
                          None \<Rightarrow> endDate
                        | Some subEndDate \<Rightarrow>
                            if Before subEndDate endDate then subEndDate else endDate));
                subMonths =
                  (go_Year effectiveEndDate - go_Year effectiveStartDate) * 12
                  + (go_Month effectiveEndDate - go_Month effectiveStartDate) + 1
            in if 0 <s subMonths
               then Mock_Cost_loop startDate endDate subs (totalCost + Price sub * subMonths)
               else Mock_Cost_loop startDate endDate subs totalCost)"

definition Mock_CalculateTotalCost ::
  "(string \<Rightarrow> uuid option) \<Rightarrow> store \<Rightarrow> string \<Rightarrow> string \<Rightarrow> string \<Rightarrow> string \<Rightarrow> error + go_int"
where
  "Mock_CalculateTotalCost P r userID serviceName startPeriod endPeriod =
     (case time_Parse startPeriod of
        None \<Rightarrow> Inl ErrInvalidStartPeriod
      | Some startDate \<Rightarrow>
          (case time_Parse endPeriod of
             None \<Rightarrow> Inl ErrInvalidEndPeriod
           | Some endDate \<Rightarrow>
               if After startDate endDate then Inl ErrStartAfterEnd
               else (case Mock_List P r userID serviceName of
                       Inl err \<Rightarrow> Inl err
                     | Inr subscriptions \<Rightarrow>
                         Inr (Mock_Cost_loop startDate endDate subscriptions 0))))"

section \<open>The database repository (SubscriptionRepository)\<close>

text \<open>
  The table \<^verbatim>\<open>subscriptions\<close> is the list of its rows. The conditions a method
  collects in \<^verbatim>\<open>whereConditions\<close> are predicates on a row, joined by AND; the
  entries of \<^verbatim>\<open>setClauses\<close> are field updates, applied to every row the WHERE
  clause selects; \<^verbatim>\<open>RowsAffected\<close> is the number of selected rows. The database
  is taken to answer every statement, so the branches for driver errors are left
  out. The comparison \<^verbatim>\<open>\<le>\<close> of the text columns \<^verbatim>\<open>start_date\<close> and
  \<^verbatim>\<open>end_date\<close> follows the collation of the database and is the argument
  \<^verbatim>\<open>le\<close>.
\<close>

type_synonym table = "Subscription list"

text \<open>The rows a WHERE clause selects, and \<^verbatim>\<open>SUM(price)\<close> over rows: NULL for none.\<close>

definition rows_where :: "(Subscription \<Rightarrow> bool) list \<Rightarrow> table \<Rightarrow> table" where
  "rows_where whereConditions db = filter (\<lambda>row. list_all (\<lambda>c. c row) whereConditions) db"

definition SUM_price :: "table \<Rightarrow> go_int option" where
  "SUM_price rows = (if rows = [] then None else Some (sum_list (map Price rows)))"

definition Repo_GetByID :: "table \<Rightarrow> go_int \<Rightarrow> error + Subscription" where
  "Repo_GetByID db idN =
     (case rows_where [\<lambda>row. ID row = idN] db of
        [] \<Rightarrow> Inl ErrNotFound
      | subscription # _ \<Rightarrow> Inr subscription)"

definition Repo_List :: "table \<Rightarrow> uuid option \<Rightarrow> string option \<Rightarrow> error + Subscription list" where
  "Repo_List db userID serviceName =
     (let whereConditions =
            (case userID of None \<Rightarrow> [] | Some u \<Rightarrow> [\<lambda>row. UserID row = u]) @
            (case serviceName of
               None \<Rightarrow> []
             | Some n \<Rightarrow> if n \<noteq> [] then [\<lambda>row. ServiceName row = n] else [])
      in Inr (rows_where whereConditions db))"

definition Repo_Update ::
  "table \<Rightarrow> go_int \<Rightarrow> UpdateSubscriptionRequest \<Rightarrow> instant \<Rightarrow> error option \<times> table"
where
  "Repo_Update db idN subscription now =
     (let setClauses =
            (if upd_ServiceName subscription \<noteq> []
             then [\<lambda>row. row\<lparr>ServiceName := upd_ServiceName subscription\<rparr>] else []) @
            (case upd_Price subscription of
               None \<Rightarrow> []
             | Some p \<Rightarrow> [\<lambda>row. row\<lparr>Price := p\<rparr>]) @
            (if upd_UserID subscription \<noteq> uuid_Nil
             then [\<lambda>row. row\<lparr>UserID := upd_UserID subscription\<rparr>] else []) @
            (if upd_StartDate subscription \<noteq> []
             then [\<lambda>row. row\<lparr>StartDate := upd_StartDate subscription\<rparr>] else []) @
            [\<lambda>row. row\<lparr>EndDate := upd_EndDate subscription\<rparr>] @
            [\<lambda>row. row\<lparr>UpdatedAt := now\<rparr>];
          rowsAffected = length (rows_where [\<lambda>row. ID row = idN] db);
          db' = map (\<lambda>row. if ID row = idN then fold (\<lambda>clause r. clause r) setClauses row
                             else row) db
      in if rowsAffected = 0 then (Some ErrNotFound, db') else (None, db'))"

definition Repo_Delete :: "table \<Rightarrow> go_int \<Rightarrow> error option \<times> table" where
  "Repo_Delete db idN =
     (let rowsAffected = length (rows_where [\<lambda>row. ID row = idN] db);
          db' = filter (\<lambda>row. ID row \<noteq> idN) db
      in if rowsAffected = 0 then (Some ErrNotFound, db') else (None, db'))"

text \<open>
  \<^verbatim>\<open>CalculateTotalCost\<close> asks the database for \<^verbatim>\<open>SUM(price)\<close> over the rows with
  \<^verbatim>\<open>start_date \<le> EndPeriod\<close> and \<^verbatim>\<open>end_date\<close> NULL or \<^verbatim>\<open>\<ge> StartPeriod\<close>
  (a comparison of the texts), and returns 0 for NULL.
\<close>

definition Repo_CalculateTotalCost ::
  "(string \<Rightarrow> string \<Rightarrow> bool) \<Rightarrow> table \<Rightarrow> CalculateCostRequest \<Rightarrow> error + go_int"
where
  "Repo_CalculateTotalCost le db req =
     (let whereConditions =
            [\<lambda>row. le (StartDate row) (calc_EndPeriod req) \<and>
                    (case EndDate row of
                       None \<Rightarrow> True
                     | Some e \<Rightarrow> le (calc_StartPeriod req) e)] @
            (case calc_UserID req of None \<Rightarrow> [] | Some u \<Rightarrow> [\<lambda>row. UserID row = u]) @
            (case calc_ServiceName req of
               None \<Rightarrow> []
             | Some n \<Rightarrow> if n \<noteq> [] then [\<lambda>row. ServiceName row = n] else [])
      in case SUM_price (rows_where whereConditions db) of
           None \<Rightarrow> Inr 0
         | Some totalCost \<Rightarrow> Inr totalCost)"

section \<open>Sequences of operations on the in-memory repository\<close>

text \<open>
  A run applies create, update and delete calls, in order, to the repository
  \<^verbatim>\<open>NewMockSubscriptionRepository\<close> returns. \<^verbatim>\<open>store_inv\<close> is the shape such a
  run keeps: one entry per key, each record under the decimal text of its own
  \<^verbatim>\<open>ID\<close>. \<^verbatim>\<open>Mock_Create\<close> reads \<^verbatim>\<open>len(r.subscriptions)\<close> as the length of the
  list, which is the number of keys in that shape.
\<close>

datatype Op =
    OpCreate Subscription instant
  | OpUpdate string Subscription instant
  | OpDelete string

fun Mock_exec :: "store \<Rightarrow> Op \<Rightarrow> store" where
  "Mock_exec r (OpCreate subscription now) = snd (Mock_Create r subscription now)"
| "Mock_exec r (OpUpdate idS subscription now) = snd (Mock_Update r idS subscription now)"
| "Mock_exec r (OpDelete idS) = snd (Mock_Delete r idS)"

definition Mock_run :: "Op list \<Rightarrow> store" where
  "Mock_run ops = foldl Mock_exec NewMockSubscriptionRepository ops"

definition store_inv :: "store \<Rightarrow> bool" where
  "store_inv r = (distinct (map fst r) \<and> map fst r = map (\<lambda>kv. Itoa (ID (snd kv))) r)"

section \<open>The calculation as the specification words it\<close>

text \<open>
  The specification's algorithm, for comparison with the code: a month is counted
  by \<^verbatim>\<open>month_index = year * 12 + month\<close>; a record whose start lies after the
  window's end is skipped; otherwise its overlap is
  \<^verbatim>\<open>min(record end or infinity, window end) - max(record start, window start) + 1\<close>
  months, and it costs its price times the overlap when that is positive. The
  range of a stored record is what its date strings parse to: a record whose start
  does not parse has no range, and an end that does not parse is no end.
\<close>

definition month_index :: "Time \<Rightarrow> int" where
  "month_index m = Year m * 12 + Month m"

definition valid_month :: "Time \<Rightarrow> bool" where
  "valid_month t = (0 \<le> Year t \<and> Year t \<le> 9999 \<and> 1 \<le> Month t \<and> Month t \<le> 12)"

definition record_range :: "Subscription \<Rightarrow> (Time \<times> Time option) option" where
  "record_range sub =
     (case time_Parse (StartDate sub) of
        None \<Rightarrow> None
      | Some s \<Rightarrow> Some (s, case EndDate sub of None \<Rightarrow> None | Some x \<Rightarrow> time_Parse x))"

definition spec_months_overlap :: "Time \<Rightarrow> Time \<Rightarrow> Time \<Rightarrow> Time option \<Rightarrow> int" where
  "spec_months_overlap start_period end_period rec_start rec_end =
     (let effective_start = max (month_index rec_start) (month_index start_period);
          effective_end = (case rec_end of
                             None \<Rightarrow> month_index end_period
                           | Some e \<Rightarrow> min (month_index e) (month_index end_period))
      in effective_end - effective_start + 1)"

definition spec_record_cost :: "Time \<Rightarrow> Time \<Rightarrow> Subscription \<Rightarrow> go_int" where
  "spec_record_cost start_period end_period sub =
     (case record_range sub of
        None \<Rightarrow> 0
      | Some (rec_start, rec_end) \<Rightarrow>
          if month_index end_period < month_index rec_start then 0
          else let months_overlap = spec_months_overlap start_period end_period rec_start rec_end
               in if 0 < months_overlap then Price sub * of_int months_overlap else 0)"

text \<open>
  What the SET clauses of \<^verbatim>\<open>SubscriptionRepository.Update\<close> make of a row, field by
  field.
\<close>

definition Repo_set_row :: "UpdateSubscriptionRequest \<Rightarrow> instant \<Rightarrow> Subscription \<Rightarrow> Subscription" where
  "Repo_set_row req now row =
     row\<lparr>ServiceName := (if upd_ServiceName req = [] then ServiceName row else upd_ServiceName req),
         Price := (case upd_Price req of None \<Rightarrow> Price row | Some p \<Rightarrow> p),
         UserID := (if upd_UserID req = uuid_Nil then UserID row else upd_UserID req),
         StartDate := (if upd_StartDate req = [] then StartDate row else upd_StartDate req),
         EndDate := upd_EndDate req,
         UpdatedAt := now\<rparr>"

section \<open>Worked examples\<close>

text \<open>
  The records of \<^verbatim>\<open>TestCalculateTotalCost\<close>, owned by the user \<^verbatim>\<open>u\<close>, and the
  store the test builds from them; the first row the migration seeds; a request
  that changes a price and names no other field. \<^verbatim>\<open>ex_uuid_Parse\<close> stands in for
  \<^verbatim>\<open>uuid.Parse\<close> where an example needs a concrete parser: it knows the one
  identifier of the README and refuses every other string. \<^verbatim>\<open>bytewise_le\<close> is
  the order of texts by character code, one collation a database may use.
\<close>

definition ex_Netflix :: "uuid \<Rightarrow> Subscription" where
  "ex_Netflix u =
     \<lparr>ID = 0, ServiceName = ''Netflix'', Price = 700, UserID = u, StartDate = ''01-2024'',
      EndDate = None, CreatedAt = 0, UpdatedAt = 0\<rparr>"

definition ex_Spotify :: "uuid \<Rightarrow> Subscription" where
  "ex_Spotify u =
     \<lparr>ID = 0, ServiceName = ''Spotify'', Price = 199, UserID = u, StartDate = ''02-2024'',
      EndDate = None, CreatedAt = 0, UpdatedAt = 0\<rparr>"

definition ex_store :: "uuid \<Rightarrow> store" where
  "ex_store u =
     snd (Mock_Create (snd (Mock_Create NewMockSubscriptionRepository (ex_Netflix u) 1))
            (ex_Spotify u) 2)"

definition ex_user :: uuid where
  "ex_user = 0x60601fee2bf14721ae6f7636e79a0cba"

definition ex_uuid_Parse :: "string \<Rightarrow> uuid option" where
  "ex_uuid_Parse s =
     (if s = ''60601fee-2bf1-4721-ae6f-7636e79a0cba'' then Some ex_user else None)"

definition ex_seed_Netflix :: Subscription where
  "ex_seed_Netflix =
     \<lparr>ID = 1, ServiceName = ''Netflix'', Price = 599, UserID = ex_user, StartDate = ''01-2023'',
      EndDate = Some ''01-2024'', CreatedAt = 0, UpdatedAt = 0\<rparr>"

definition ex_price_only :: UpdateSubscriptionRequest where
  "ex_price_only =
     \<lparr>upd_ServiceName = [], upd_Price = Some 649, upd_UserID = uuid_Nil, upd_StartDate = [],
      upd_EndDate = None\<rparr>"

definition ex_window :: "string \<Rightarrow> string \<Rightarrow> CalculateCostRequest" where
  "ex_window startPeriod endPeriod =
     \<lparr>calc_UserID = None, calc_ServiceName = None, calc_StartPeriod = startPeriod,
      calc_EndPeriod = endPeriod\<rparr>"

fun bytewise_le :: "string \<Rightarrow> string \<Rightarrow> bool" where
  "bytewise_le [] t = True"
| "bytewise_le (c # cs) [] = False"
| "bytewise_le (c # cs) (d # ds) =
     ((of_char c :: nat) < of_char d \<or> (c = d \<and> bytewise_le cs ds))"

section \<open>Evaluating the library functions\<close>

lemma time_Parse_01_2023: "time_Parse ''01-2023'' = Some (Date 2023 1)"
  by (simp add: time_Parse.simps isDigit_def digitVal_def)

lemma time_Parse_12_2023: "time_Parse ''12-2023'' = Some (Date 2023 12)"
  by (simp add: time_Parse.simps isDigit_def digitVal_def)

lemma time_Parse_01_2024: "time_Parse ''01-2024'' = Some (Date 2024 1)"
  by (simp add: time_Parse.simps isDigit_def digitVal_def)

lemma time_Parse_02_2024: "time_Parse ''02-2024'' = Some (Date 2024 2)"
  by (simp add: time_Parse.simps isDigit_def digitVal_def)

lemma time_Parse_06_2024: "time_Parse ''06-2024'' = Some (Date 2024 6)"
  by (simp add: time_Parse.simps isDigit_def digitVal_def)

lemma time_Parse_12_2024: "time_Parse ''12-2024'' = Some (Date 2024 12)"
  by (simp add: time_Parse.simps isDigit_def digitVal_def)

lemma time_Parse_ISO_refused: "time_Parse ''2024-01'' = None"
  by (simp add: time_Parse.simps isDigit_def)

lemma time_Parse_month_13_refused: "time_Parse ''13-2024'' = None"
  by (simp add: time_Parse.simps isDigit_def digitVal_def)

lemma time_Parse_empty_refused: "time_Parse [] = None"
  by (simp add: time_Parse.simps)

lemmas time_Parse_examples =
  time_Parse_01_2023 time_Parse_12_2023 time_Parse_01_2024 time_Parse_02_2024
  time_Parse_06_2024 time_Parse_12_2024 time_Parse_ISO_refused time_Parse_month_13_refused
  time_Parse_empty_refused

lemma Itoa_1: "Itoa 1 = ''1''"
  by (simp add: Itoa_def decimal.simps digitChar_def)

lemma Itoa_2: "Itoa 2 = ''2''"
  by (simp add: Itoa_def decimal.simps digitChar_def)

lemma Itoa_7: "Itoa 7 = ''7''"
  by (simp add: Itoa_def decimal.simps digitChar_def)

lemma Itoa_9: "Itoa 9 = ''9''"
  by (simp add: Itoa_def decimal.simps digitChar_def)

lemma Itoa_3: "Itoa 3 = ''3''"
  by (simp add: Itoa_def decimal.simps digitChar_def)

lemma Atoi_1: "Atoi ''1'' = (1, None)"
  by (simp add: Atoi_def isDigit_def digitVal_def)

lemma Atoi_range_before_syntax:
  "Atoi ''99999999999999999999x'' = (of_int (2 ^ 63 - 1), Some ErrRange)"
  by (simp add: Atoi_def isDigit_def digitVal_def)

lemma Atoi_syntax: "Atoi ''12x'' = (0, Some ErrSyntax)"
  by (simp add: Atoi_def isDigit_def digitVal_def)

lemma ex_store_eq:
  "ex_store u =
     [(''1'', (ex_Netflix u)\<lparr>ID := 1, CreatedAt := 1, UpdatedAt := 1\<rparr>),
      (''2'', (ex_Spotify u)\<lparr>ID := 2, CreatedAt := 2, UpdatedAt := 2\<rparr>)]"
  by (simp add: ex_store_def Mock_Create_def NewMockSubscriptionRepository_def
      ex_Netflix_def ex_Spotify_def Itoa_1 Itoa_2 Let_def)

section \<open>Parsed months\<close>

lemma isDigit_digitVal: "isDigit c \<Longrightarrow> digitVal c \<le> 9"
  by (auto simp: isDigit_def digitVal_def)

lemma time_Parse_valid: "time_Parse s = Some t \<Longrightarrow> valid_month t"
proof (induction s rule: time_Parse.induct)
  case (1 m1 m2 d y1 y2 y3 y4)
  then show ?case
    using isDigit_digitVal [of y1] isDigit_digitVal [of y2] isDigit_digitVal [of y3]
      isDigit_digitVal [of y4]
    by (auto simp: time_Parse.simps valid_month_def Let_def split: if_splits)
qed (simp_all add: time_Parse.simps)

lemma After_index:
  "valid_month t \<Longrightarrow> valid_month u \<Longrightarrow> After t u \<longleftrightarrow> month_index u < month_index t"
  by (auto simp: After_def month_index_def valid_month_def)

lemma Before_index:
  "valid_month t \<Longrightarrow> valid_month u \<Longrightarrow> Before t u \<longleftrightarrow> month_index t < month_index u"
  by (auto simp: Before_def month_index_def valid_month_def)

lemma month_index_bounds: "valid_month t \<Longrightarrow> 1 \<le> month_index t \<and> month_index t \<le> 120000"
  by (auto simp: month_index_def valid_month_def)

text \<open>
  The month count of the source, computed on Go integers, is the difference of the
  month indices plus one; for parsed months it is far from the 64-bit bounds, so the
  signed test \<^verbatim>\<open>subMonths > 0\<close> is the test on the integers.
\<close>

lemma subMonths_word:
  "(go_Year e - go_Year s) * 12 + (go_Month e - go_Month s) + 1
     = (of_int (month_index e - month_index s + 1) :: go_int)"
  by (simp add: go_Year_def go_Month_def month_index_def algebra_simps)

lemma sint_small:
  "- 200000 \<le> x \<Longrightarrow> x \<le> 200000 \<Longrightarrow> sint (of_int x :: go_int) = x"
  by (simp add: sint_sbintrunc' signed_take_bit_int_eq_self)

lemma subMonths_pos:
  assumes "valid_month e" "valid_month s"
  shows "(0 <s (of_int (month_index e - month_index s + 1) :: go_int))
           \<longleftrightarrow> 0 < month_index e - month_index s + 1"
proof -
  have "sint (of_int (month_index e - month_index s + 1) :: go_int)
          = month_index e - month_index s + 1"
    using month_index_bounds [OF assms(1)] month_index_bounds [OF assms(2)]
    by (intro sint_small) auto
  then show ?thesis by (simp add: word_sless_alt)
qed

section \<open>Listing with filters\<close>

lemma Mock_List_loop_filter:
  "Mock_List_loop P userID serviceName r result =
     result @ filter (\<lambda>sub. (userID = [] \<or> P userID = Some (UserID sub)) \<and>
                            (serviceName = [] \<or> ServiceName sub = serviceName)) (map snd r)"
  by (induction r arbitrary: result) (auto split: option.splits)

lemma Mock_List_filter:
  "Mock_List P r userID serviceName =
     Inr (filter (\<lambda>sub. (userID = [] \<or> P userID = Some (UserID sub)) \<and>
                          (serviceName = [] \<or> ServiceName sub = serviceName)) (map snd r))"
  by (simp add: Mock_List_def Mock_List_loop_filter)

lemma Mock_List_restrict:
  "Mock_List P r userID serviceName =
   Mock_List P (filter (\<lambda>kv. (userID = [] \<or> P userID = Some (UserID (snd kv))) \<and>
                          (serviceName = [] \<or> ServiceName (snd kv) = serviceName)) r) [] []"
  by (simp add: Mock_List_filter filter_map comp_def)

lemma Mock_Calc_restrict:
  "Mock_CalculateTotalCost P r userID serviceName startPeriod endPeriod =
   Mock_CalculateTotalCost P
     (filter (\<lambda>kv. (userID = [] \<or> P userID = Some (UserID (snd kv))) \<and>
                    (serviceName = [] \<or> ServiceName (snd kv) = serviceName)) r)
     [] [] startPeriod endPeriod"
  unfolding Mock_CalculateTotalCost_def
  by (subst Mock_List_restrict) (rule refl)

lemma rows_where_append:
  "rows_where (cs @ ds) db = rows_where cs (rows_where ds db)"
  by (auto simp: rows_where_def intro!: filter_cong)

lemma rows_where_filters:
  "rows_where
     ((case userID of None \<Rightarrow> [] | Some u \<Rightarrow> [\<lambda>row. UserID row = u]) @
      (case serviceName of None \<Rightarrow> []
       | Some n \<Rightarrow> if n \<noteq> [] then [\<lambda>row. ServiceName row = n] else [])) db =
   filter (\<lambda>row. (userID = None \<or> userID = Some (UserID row)) \<and>
                  (serviceName = None \<or> serviceName = Some [] \<or>
                   serviceName = Some (ServiceName row))) db"
  by (cases userID; cases serviceName) (auto simp: rows_where_def intro!: filter_cong)

lemma Repo_List_filter:
  "Repo_List db userID serviceName =
     Inr (filter (\<lambda>row. (userID = None \<or> userID = Some (UserID row)) \<and>
                         (serviceName = None \<or> serviceName = Some [] \<or>
                          serviceName = Some (ServiceName row))) db)"
  by (simp only: Repo_List_def Let_def rows_where_filters)

lemma Repo_Calc_restrict:
  "Repo_CalculateTotalCost le db req =
   Repo_CalculateTotalCost le
     (filter (\<lambda>row. (calc_UserID req = None \<or> calc_UserID req = Some (UserID row)) \<and>
                     (calc_ServiceName req = None \<or> calc_ServiceName req = Some [] \<or>
                      calc_ServiceName req = Some (ServiceName row))) db)
     (req\<lparr>calc_UserID := None, calc_ServiceName := None\<rparr>)"
  unfolding Repo_CalculateTotalCost_def Let_def
  by (subst rows_where_append) (simp add: rows_where_filters cong: option.case_cong)

section \<open>Operations on an id that is not stored\<close>

lemma rows_where_ID_absent:
  "idN \<notin> ID ` set db \<Longrightarrow> rows_where [\<lambda>row. ID row = idN] db = []"
  by (induction db) (auto simp: rows_where_def)

lemma filter_ID_keep: "idN \<notin> ID ` set db \<Longrightarrow> filter (\<lambda>row. ID row \<noteq> idN) db = db"
  by (induction db) auto

lemma map_ID_keep:
  "idN \<notin> ID ` set db \<Longrightarrow> map (\<lambda>row. if ID row = idN then f row else row) db = db"
  by (induction db) auto

lemma Mock_not_found:
  assumes "map_of r idS = None"
  shows "Mock_GetByID r idS = Inl ErrNotFound"
    and "Mock_Update r idS subscription now = (Inl ErrNotFound, r)"
    and "Mock_Delete r idS = (Some ErrNotFound, r)"
  using assms by (simp_all add: Mock_GetByID_def Mock_Update_def Mock_Delete_def)

lemma Repo_not_found:
  assumes "idN \<notin> ID ` set db"
  shows "Repo_GetByID db idN = Inl ErrNotFound"
    and "Repo_Update db idN req now = (Some ErrNotFound, db)"
    and "Repo_Delete db idN = (Some ErrNotFound, db)"
  using assms
  by (simp_all add: Repo_GetByID_def Repo_Update_def Repo_Delete_def Let_def
      rows_where_ID_absent filter_ID_keep map_ID_keep)

text \<open>
  Claim C7. For every store state and every id that references no stored record,
  get-by-id, update and delete each fail with the error "subscription not found",
  and update and delete return the store as it was. This holds of the in-memory
  repository (no entry under the key) and of the database repository (no row with
  that id).
\<close>

theorem C7_not_found:
  "(map_of r idS = None \<longrightarrow>
      Mock_GetByID r idS = Inl ErrNotFound \<and>
      Mock_Update r idS subscription now = (Inl ErrNotFound, r) \<and>
      Mock_Delete r idS = (Some ErrNotFound, r)) \<and>
   (idN \<notin> ID ` set db \<longrightarrow>
      Repo_GetByID db idN = Inl ErrNotFound \<and>
      Repo_Update db idN req now = (Some ErrNotFound, db) \<and>
      Repo_Delete db idN = (Some ErrNotFound, db))"
  using Mock_not_found [of r idS] Repo_not_found [of idN db] by blast

theorem C7_not_found_witness:
  "map_of (ex_store ex_user) ''3'' = None \<and>
   Mock_GetByID (ex_store ex_user) ''3'' = Inl ErrNotFound \<and>
   Mock_Update (ex_store ex_user) ''3'' (ex_Netflix ex_user) 5 = (Inl ErrNotFound, ex_store ex_user) \<and>
   Mock_Delete (ex_store ex_user) ''3'' = (Some ErrNotFound, ex_store ex_user) \<and>
   3 \<notin> ID ` set (map snd (ex_store ex_user)) \<and>
   Repo_GetByID (map snd (ex_store ex_user)) 3 = Inl ErrNotFound \<and>
   Repo_Update (map snd (ex_store ex_user)) 3 ex_price_only 5
     = (Some ErrNotFound, map snd (ex_store ex_user)) \<and>
   Repo_Delete (map snd (ex_store ex_user)) 3 = (Some ErrNotFound, map snd (ex_store ex_user))"
proof -
  have h1: "map_of (ex_store ex_user) ''3'' = None"
    by (simp add: ex_store_eq)
  have h2: "3 \<notin> ID ` set (map snd (ex_store ex_user))"
    by (simp add: ex_store_eq)
  show ?thesis
    using h1 h2
      C7_not_found [of "ex_store ex_user" "''3''" "ex_Netflix ex_user" 5 3
        "map snd (ex_store ex_user)" ex_price_only]
    by blast
qed

section \<open>Errors of the in-memory calculation\<close>

lemma Mock_Calc_window:
  assumes "time_Parse startPeriod = Some startDate" "time_Parse endPeriod = Some endDate"
  shows "After startDate endDate \<Longrightarrow>
           Mock_CalculateTotalCost P r userID serviceName startPeriod endPeriod
             = Inl ErrStartAfterEnd"
    and "\<not> After startDate endDate \<Longrightarrow>
           Mock_CalculateTotalCost P r userID serviceName startPeriod endPeriod =
             Inr (Mock_Cost_loop startDate endDate
                   (filter (\<lambda>sub. (userID = [] \<or> P userID = Some (UserID sub)) \<and>
                                  (serviceName = [] \<or> ServiceName sub = serviceName))
                      (map snd r)) 0)"
  using assms by (simp_all add: Mock_CalculateTotalCost_def Mock_List_filter)

lemma Mock_Calc_errors:
  "Mock_CalculateTotalCost P r userID serviceName startPeriod endPeriod = Inl err \<Longrightarrow>
     err = ErrInvalidStartPeriod \<and> time_Parse startPeriod = None \<or>
     err = ErrInvalidEndPeriod \<and> time_Parse endPeriod = None \<or>
     err = ErrStartAfterEnd \<and>
       (\<exists>s e. time_Parse startPeriod = Some s \<and> time_Parse endPeriod = Some e \<and> After s e)"
  by (auto simp: Mock_CalculateTotalCost_def Mock_List_filter split: option.splits if_splits)

section \<open>The loop of the in-memory calculation\<close>

lemma Mock_Cost_loop_append:
  "Mock_Cost_loop s e (xs @ ys) t = Mock_Cost_loop s e ys (Mock_Cost_loop s e xs t)"
  by (induction xs arbitrary: t) (simp_all add: Let_def split: option.splits)

lemma Mock_Cost_loop_bad_start:
  "time_Parse (StartDate sub) = None \<Longrightarrow>
     Mock_Cost_loop s e (sub # subs) t = Mock_Cost_loop s e subs t"
  by simp

lemma Mock_Cost_loop_bad_end:
  "EndDate sub = Some x \<Longrightarrow> time_Parse x = None \<Longrightarrow>
     Mock_Cost_loop s e (sub # subs) t = Mock_Cost_loop s e (sub\<lparr>EndDate := None\<rparr> # subs) t"
  by (simp add: Let_def split: option.splits)

text \<open>One turn of the loop adds what the specification's algorithm gives for the record.\<close>

lemma Mock_Cost_loop_step:
  assumes S: "valid_month S" and E: "valid_month E"
  shows "Mock_Cost_loop S E (sub # subs) t
           = Mock_Cost_loop S E subs (t + spec_record_cost S E sub)"
proof (cases "time_Parse (StartDate sub)")
  case None
  then show ?thesis by (simp add: spec_record_cost_def record_range_def)
next
  case (Some s)
  then have s: "valid_month s" by (rule time_Parse_valid)
  define e' where "e' = (case EndDate sub of None \<Rightarrow> None | Some x \<Rightarrow> time_Parse x)"
  have rr: "record_range sub = Some (s, e')"
    by (simp add: record_range_def Some e'_def)
  show ?thesis
  proof (cases "After s E")
    case True
    then show ?thesis
      using After_index [OF s E] by (simp add: Some spec_record_cost_def rr)
  next
    case False
    define effS where "effS = (if After s S then s else S)"
    define effE where
      "effE = (case e' of None \<Rightarrow> E | Some se \<Rightarrow> if Before se E then se else E)"
    have effE_code:
      "(case EndDate sub of
          None \<Rightarrow> E
        | Some x \<Rightarrow>
            (case time_Parse x of
               None \<Rightarrow> E
             | Some subEndDate \<Rightarrow> if Before subEndDate E then subEndDate else E)) = effE"
      by (simp add: effE_def e'_def split: option.splits)
    have vS: "valid_month effS" using s S by (simp add: effS_def)
    have vE: "valid_month effE"
      using E by (auto simp: effE_def e'_def split: option.splits dest: time_Parse_valid)
    have iS: "month_index effS = max (month_index s) (month_index S)"
      using After_index [OF s S] by (simp add: effS_def)
    have iE: "month_index effE =
                (case e' of None \<Rightarrow> month_index E
                 | Some se \<Rightarrow> min (month_index se) (month_index E))"
    proof (cases e')
      case None
      then show ?thesis by (simp add: effE_def)
    next
      case (Some se)
      then have "valid_month se"
        by (auto simp: e'_def split: option.splits dest: time_Parse_valid)
      then show ?thesis
        using Before_index [of se E] E Some by (simp add: effE_def)
    qed
    have m: "spec_months_overlap S E s e' = month_index effE - month_index effS + 1"
      by (simp add: spec_months_overlap_def iS iE)
    have loop: "Mock_Cost_loop S E (sub # subs) t =
                  (if 0 <s (of_int (month_index effE - month_index effS + 1) :: go_int)
                   then Mock_Cost_loop S E subs
                          (t + Price sub * of_int (month_index effE - month_index effS + 1))
                   else Mock_Cost_loop S E subs t)"
      by (simp only: Mock_Cost_loop.simps Some option.case False if_False Let_def effE_code
            subMonths_word flip: effS_def)
    have cost: "spec_record_cost S E sub =
                  (if 0 < month_index effE - month_index effS + 1
                   then Price sub * of_int (month_index effE - month_index effS + 1) else 0)"
      using False After_index [OF s E] by (simp add: spec_record_cost_def rr m)
    show ?thesis
      unfolding loop cost subMonths_pos [OF vE vS] by simp
  qed
qed

lemma Mock_Cost_loop_sum:
  assumes "valid_month S" "valid_month E"
  shows "Mock_Cost_loop S E subs t = t + sum_list (map (spec_record_cost S E) subs)"
proof (induction subs arbitrary: t)
  case Nil
  show ?case by simp
next
  case (Cons sub subs)
  show ?case
    by (simp only: Mock_Cost_loop_step [OF assms] Cons.IH list.map sum_list.Cons add.assoc)
qed

text \<open>
  The in-memory calculation refines the specification's: for a window that parses
  and is not reversed it returns the sum, over the records the filters keep, of the
  price times the months of overlap (in 64-bit arithmetic).
\<close>

lemma Mock_total_is_spec_sum:
  assumes "time_Parse startPeriod = Some S" "time_Parse endPeriod = Some E" "\<not> After S E"
  shows "Mock_CalculateTotalCost P r userID serviceName startPeriod endPeriod =
           Inr (sum_list (map (spec_record_cost S E)
                 (filter (\<lambda>sub. (userID = [] \<or> P userID = Some (UserID sub)) \<and>
                                (serviceName = [] \<or> ServiceName sub = serviceName))
                    (map snd r))))"
  using assms
  by (simp add: Mock_Calc_window(2) Mock_Cost_loop_sum time_Parse_valid)

text \<open>
  A record with no end date and a window that starts at or after the record's start:
  the specification's cost is the price times every month of the window.
\<close>

lemma spec_record_cost_open_ended:
  assumes "time_Parse (StartDate sub) = Some s" "EndDate sub = None"
    and "valid_month S" "valid_month E"
    and "month_index s \<le> month_index S" "month_index S \<le> month_index E"
  shows "spec_record_cost S E sub = Price sub * of_int (month_index E - month_index S + 1)"
  using assms
  by (simp add: spec_record_cost_def record_range_def spec_months_overlap_def max_def)

section \<open>Filters in listing and calculation\<close>

lemma SUM_price_total:
  "(case SUM_price rows of None \<Rightarrow> Inr 0 | Some totalCost \<Rightarrow> Inr totalCost)
     = (Inr (sum_list (map Price rows)) :: error + go_int)"
  by (simp add: SUM_price_def)

text \<open>
  The database calculation over any table: the sum of the price over the rows
  whose dates meet the window in the order of the texts and that match the filters
  given.
\<close>

lemma Repo_Calc_sum:
  "Repo_CalculateTotalCost le db req =
     Inr (sum_list (map Price
       (filter (\<lambda>row. le (StartDate row) (calc_EndPeriod req) \<and>
                       (case EndDate row of None \<Rightarrow> True
                        | Some e \<Rightarrow> le (calc_StartPeriod req) e) \<and>
                       (calc_UserID req = None \<or> calc_UserID req = Some (UserID row)) \<and>
                       (calc_ServiceName req = None \<or> calc_ServiceName req = Some [] \<or>
                        calc_ServiceName req = Some (ServiceName row))) db)))"
proof -
  have "rows_where
          ([\<lambda>row. le (StartDate row) (calc_EndPeriod req) \<and>
                   (case EndDate row of None \<Rightarrow> True | Some e \<Rightarrow> le (calc_StartPeriod req) e)] @
           (case calc_UserID req of None \<Rightarrow> [] | Some u \<Rightarrow> [\<lambda>row. UserID row = u]) @
           (case calc_ServiceName req of
              None \<Rightarrow> []
            | Some n \<Rightarrow> if n \<noteq> [] then [\<lambda>row. ServiceName row = n] else [])) db
        = filter (\<lambda>row. le (StartDate row) (calc_EndPeriod req) \<and>
                       (case EndDate row of None \<Rightarrow> True
                        | Some e \<Rightarrow> le (calc_StartPeriod req) e) \<and>
                       (calc_UserID req = None \<or> calc_UserID req = Some (UserID row)) \<and>
                       (calc_ServiceName req = None \<or> calc_ServiceName req = Some [] \<or>
                        calc_ServiceName req = Some (ServiceName row))) db"
    by (subst rows_where_append)
       (auto simp: rows_where_filters rows_where_def split: option.splits if_splits
          intro!: filter_cong)
  then show ?thesis
    unfolding Repo_CalculateTotalCost_def Let_def by (simp only: SUM_price_total)
qed

lemma ex_costs:
  "spec_record_cost (Date 2024 1) (Date 2024 12)
     ((ex_Netflix u)\<lparr>ID := i, CreatedAt := c, UpdatedAt := c'\<rparr>) = 8400"
  "spec_record_cost (Date 2024 1) (Date 2024 12)
     ((ex_Spotify u)\<lparr>ID := i, CreatedAt := c, UpdatedAt := c'\<rparr>) = 2189"
  by (simp_all add: spec_record_cost_def record_range_def spec_months_overlap_def
        month_index_def ex_Netflix_def ex_Spotify_def time_Parse_examples Let_def)

text \<open>
  Claim C5. Listing or calculating with a user filter and a service-name filter
  takes exactly the records that match both; with neither filter it takes every
  record; either filter may be left out alone, and a filter left out matches every
  record. In the in-memory repository a filter is left out as the empty string and
  the user filter is matched through \<^verbatim>\<open>uuid.Parse\<close>; in the database repository
  a filter is left out as a nil pointer (an empty service name is left out too).
  Calculating with filters is calculating without them over the records that
  match, and the records a calculation aggregates are pinned: over a window that
  parses and is not reversed the in-memory calculation is the sum, over the
  records that match the filters, of the cost of each record over the window, so
  with no filter the sum over every record; the database calculation is the sum of
  the price over the rows that match the filters and whose dates meet the window,
  so with no filter every row whose dates meet the window.
\<close>

theorem C5_filters:
  "(userID \<noteq> [] \<and> P userID = Some uid \<and> serviceName \<noteq> [] \<longrightarrow>
      Mock_List P r userID serviceName =
        Inr (filter (\<lambda>sub. UserID sub = uid \<and> ServiceName sub = serviceName) (map snd r))) \<and>
   Mock_List P r [] [] = Inr (map snd r) \<and>
   (userID \<noteq> [] \<and> P userID = Some uid \<longrightarrow>
      Mock_List P r userID [] = Inr (filter (\<lambda>sub. UserID sub = uid) (map snd r))) \<and>
   (serviceName \<noteq> [] \<longrightarrow>
      Mock_List P r [] serviceName =
        Inr (filter (\<lambda>sub. ServiceName sub = serviceName) (map snd r))) \<and>
   Mock_CalculateTotalCost P r userID serviceName startPeriod endPeriod =
     Mock_CalculateTotalCost P
       (filter (\<lambda>kv. (userID = [] \<or> P userID = Some (UserID (snd kv))) \<and>
                      (serviceName = [] \<or> ServiceName (snd kv) = serviceName)) r)
       [] [] startPeriod endPeriod \<and>
   (serviceName \<noteq> [] \<longrightarrow>
      Repo_List db (Some uid) (Some serviceName) =
        Inr (filter (\<lambda>row. UserID row = uid \<and> ServiceName row = serviceName) db)) \<and>
   Repo_List db None None = Inr db \<and>
   Repo_List db (Some uid) None = Inr (filter (\<lambda>row. UserID row = uid) db) \<and>
   (serviceName \<noteq> [] \<longrightarrow>
      Repo_List db None (Some serviceName) =
        Inr (filter (\<lambda>row. ServiceName row = serviceName) db)) \<and>
   Repo_CalculateTotalCost le db req =
     Repo_CalculateTotalCost le
       (filter (\<lambda>row. (calc_UserID req = None \<or> calc_UserID req = Some (UserID row)) \<and>
                       (calc_ServiceName req = None \<or> calc_ServiceName req = Some [] \<or>
                        calc_ServiceName req = Some (ServiceName row))) db)
       (req\<lparr>calc_UserID := None, calc_ServiceName := None\<rparr>) \<and>
   (time_Parse startPeriod = Some startDate \<and> time_Parse endPeriod = Some endDate \<and>
    \<not> After startDate endDate \<longrightarrow>
      Mock_CalculateTotalCost P r userID serviceName startPeriod endPeriod =
        Inr (sum_list (map (spec_record_cost startDate endDate)
               (filter (\<lambda>sub. (userID = [] \<or> P userID = Some (UserID sub)) \<and>
                              (serviceName = [] \<or> ServiceName sub = serviceName))
                  (map snd r)))) \<and>
      Mock_CalculateTotalCost P r [] [] startPeriod endPeriod =
        Inr (sum_list (map (spec_record_cost startDate endDate) (map snd r)))) \<and>
   Repo_CalculateTotalCost le db req =
     Inr (sum_list (map Price
       (filter (\<lambda>row. le (StartDate row) (calc_EndPeriod req) \<and>
                       (case EndDate row of None \<Rightarrow> True
                        | Some e \<Rightarrow> le (calc_StartPeriod req) e) \<and>
                       (calc_UserID req = None \<or> calc_UserID req = Some (UserID row)) \<and>
                       (calc_ServiceName req = None \<or> calc_ServiceName req = Some [] \<or>
                        calc_ServiceName req = Some (ServiceName row))) db)))"
proof -
  have m1: "userID \<noteq> [] \<and> P userID = Some uid \<and> serviceName \<noteq> [] \<longrightarrow>
      Mock_List P r userID serviceName =
        Inr (filter (\<lambda>sub. UserID sub = uid \<and> ServiceName sub = serviceName) (map snd r))"
    by (auto simp: Mock_List_filter intro!: filter_cong)
  have m2: "Mock_List P r [] [] = Inr (map snd r)"
    by (simp add: Mock_List_filter)
  have m3: "userID \<noteq> [] \<and> P userID = Some uid \<longrightarrow>
      Mock_List P r userID [] = Inr (filter (\<lambda>sub. UserID sub = uid) (map snd r))"
    by (auto simp: Mock_List_filter intro!: filter_cong)
  have m4: "serviceName \<noteq> [] \<longrightarrow>
      Mock_List P r [] serviceName =
        Inr (filter (\<lambda>sub. ServiceName sub = serviceName) (map snd r))"
    by (simp add: Mock_List_filter)
  have d1: "serviceName \<noteq> [] \<longrightarrow>
      Repo_List db (Some uid) (Some serviceName) =
        Inr (filter (\<lambda>row. UserID row = uid \<and> ServiceName row = serviceName) db)"
    by (auto simp: Repo_List_filter intro!: filter_cong)
  have d2: "Repo_List db None None = Inr db"
    by (simp add: Repo_List_filter)
  have d3: "Repo_List db (Some uid) None = Inr (filter (\<lambda>row. UserID row = uid) db)"
    by (auto simp: Repo_List_filter intro!: filter_cong)
  have d4: "serviceName \<noteq> [] \<longrightarrow>
      Repo_List db None (Some serviceName) =
        Inr (filter (\<lambda>row. ServiceName row = serviceName) db)"
    by (auto simp: Repo_List_filter intro!: filter_cong)
  have c1: "time_Parse startPeriod = Some startDate \<and> time_Parse endPeriod = Some endDate \<and>
    \<not> After startDate endDate \<longrightarrow>
      Mock_CalculateTotalCost P r userID serviceName startPeriod endPeriod =
        Inr (sum_list (map (spec_record_cost startDate endDate)
               (filter (\<lambda>sub. (userID = [] \<or> P userID = Some (UserID sub)) \<and>
                              (serviceName = [] \<or> ServiceName sub = serviceName))
                  (map snd r)))) \<and>
      Mock_CalculateTotalCost P r [] [] startPeriod endPeriod =
        Inr (sum_list (map (spec_record_cost startDate endDate) (map snd r)))"
    by (simp add: Mock_total_is_spec_sum)
  show ?thesis
    using m1 m2 m3 m4 d1 d2 d3 d4 c1
      Mock_Calc_restrict [of P r userID serviceName startPeriod endPeriod]
      Repo_Calc_restrict [of le db req]
      Repo_Calc_sum [of le db req]
    by blast
qed

theorem C5_filters_witness:
  "''60601fee-2bf1-4721-ae6f-7636e79a0cba'' \<noteq> [] \<and>
   ex_uuid_Parse ''60601fee-2bf1-4721-ae6f-7636e79a0cba'' = Some ex_user \<and>
   ''Spotify'' \<noteq> [] \<and>
   Mock_List ex_uuid_Parse (ex_store ex_user) ''60601fee-2bf1-4721-ae6f-7636e79a0cba'' ''Spotify''
     = Inr [(ex_Spotify ex_user)\<lparr>ID := 2, CreatedAt := 2, UpdatedAt := 2\<rparr>] \<and>
   Mock_List ex_uuid_Parse (ex_store ex_user) [] []
     = Inr [(ex_Netflix ex_user)\<lparr>ID := 1, CreatedAt := 1, UpdatedAt := 1\<rparr>,
            (ex_Spotify ex_user)\<lparr>ID := 2, CreatedAt := 2, UpdatedAt := 2\<rparr>] \<and>
   Repo_List (map snd (ex_store ex_user)) (Some ex_user) (Some ''Spotify'')
     = Inr [(ex_Spotify ex_user)\<lparr>ID := 2, CreatedAt := 2, UpdatedAt := 2\<rparr>] \<and>
   Repo_List (map snd (ex_store ex_user)) None None
     = Inr [(ex_Netflix ex_user)\<lparr>ID := 1, CreatedAt := 1, UpdatedAt := 1\<rparr>,
            (ex_Spotify ex_user)\<lparr>ID := 2, CreatedAt := 2, UpdatedAt := 2\<rparr>] \<and>
   time_Parse ''01-2024'' = Some (Date 2024 1) \<and>
   time_Parse ''12-2024'' = Some (Date 2024 12) \<and>
   \<not> After (Date 2024 1) (Date 2024 12) \<and>
   Mock_CalculateTotalCost ex_uuid_Parse (ex_store ex_user)
     ''60601fee-2bf1-4721-ae6f-7636e79a0cba'' ''Spotify'' ''01-2024'' ''12-2024'' = Inr 2189 \<and>
   Mock_CalculateTotalCost ex_uuid_Parse (ex_store ex_user) [] [] ''01-2024'' ''12-2024''
     = Inr 10589 \<and>
   Repo_CalculateTotalCost bytewise_le (map snd (ex_store ex_user))
     \<lparr>calc_UserID = Some ex_user, calc_ServiceName = Some ''Spotify'',
      calc_StartPeriod = ''01-2024'', calc_EndPeriod = ''12-2024''\<rparr> = Inr 199 \<and>
   Repo_CalculateTotalCost bytewise_le (map snd (ex_store ex_user))
     (ex_window ''01-2024'' ''12-2024'') = Inr 899"
proof -
  have h: "''60601fee-2bf1-4721-ae6f-7636e79a0cba'' \<noteq> [] \<and>
           ex_uuid_Parse ''60601fee-2bf1-4721-ae6f-7636e79a0cba'' = Some ex_user \<and>
           ''Spotify'' \<noteq> []"
    by (simp add: ex_uuid_Parse_def)
  have w: "time_Parse ''01-2024'' = Some (Date 2024 1) \<and>
           time_Parse ''12-2024'' = Some (Date 2024 12) \<and>
           \<not> After (Date 2024 1) (Date 2024 12)"
    by (simp add: time_Parse_examples After_def)
  note c = C5_filters [where userID = "''60601fee-2bf1-4721-ae6f-7636e79a0cba''"
      and P = ex_uuid_Parse and uid = ex_user and serviceName = "''Spotify''"
      and r = "ex_store ex_user" and startPeriod = "''01-2024''" and endPeriod = "''12-2024''"
      and startDate = "Date 2024 1" and endDate = "Date 2024 12"
      and db = "map snd (ex_store ex_user)" and le = bytewise_le]
  note cf = c [where req = "\<lparr>calc_UserID = Some ex_user, calc_ServiceName = Some ''Spotify'',
      calc_StartPeriod = ''01-2024'', calc_EndPeriod = ''12-2024''\<rparr>"]
  note cn = c [where req = "ex_window ''01-2024'' ''12-2024''"]
  have both: "Mock_List ex_uuid_Parse (ex_store ex_user)
                ''60601fee-2bf1-4721-ae6f-7636e79a0cba'' ''Spotify''
              = Inr (filter (\<lambda>sub. UserID sub = ex_user \<and> ServiceName sub = ''Spotify'')
                      (map snd (ex_store ex_user)))"
    using cf h by blast
  have neither: "Mock_List ex_uuid_Parse (ex_store ex_user) [] []
                   = Inr (map snd (ex_store ex_user))"
    using cf by blast
  have dboth: "Repo_List (map snd (ex_store ex_user)) (Some ex_user) (Some ''Spotify'')
                 = Inr (filter (\<lambda>row. UserID row = ex_user \<and> ServiceName row = ''Spotify'')
                         (map snd (ex_store ex_user)))"
    using cf h by blast
  have dneither: "Repo_List (map snd (ex_store ex_user)) None None
                    = Inr (map snd (ex_store ex_user))"
    using cf by blast
  have mcalc: "Mock_CalculateTotalCost ex_uuid_Parse (ex_store ex_user)
     ''60601fee-2bf1-4721-ae6f-7636e79a0cba'' ''Spotify'' ''01-2024'' ''12-2024''
     = Inr (sum_list (map (spec_record_cost (Date 2024 1) (Date 2024 12))
               (filter (\<lambda>sub. (''60601fee-2bf1-4721-ae6f-7636e79a0cba'' = [] \<or>
                               ex_uuid_Parse ''60601fee-2bf1-4721-ae6f-7636e79a0cba''
                                 = Some (UserID sub)) \<and>
                              (''Spotify'' = [] \<or> ServiceName sub = ''Spotify''))
                  (map snd (ex_store ex_user)))))"
    using cf w by blast
  have mcalc0: "Mock_CalculateTotalCost ex_uuid_Parse (ex_store ex_user) [] []
     ''01-2024'' ''12-2024''
     = Inr (sum_list (map (spec_record_cost (Date 2024 1) (Date 2024 12))
             (map snd (ex_store ex_user))))"
    using cf w by blast
  have dsum: "Repo_CalculateTotalCost bytewise_le (map snd (ex_store ex_user))
     \<lparr>calc_UserID = Some ex_user, calc_ServiceName = Some ''Spotify'',
      calc_StartPeriod = ''01-2024'', calc_EndPeriod = ''12-2024''\<rparr>
     = Inr (sum_list (map Price
         (filter (\<lambda>row. bytewise_le (StartDate row) (calc_EndPeriod
                    \<lparr>calc_UserID = Some ex_user, calc_ServiceName = Some ''Spotify'',
                     calc_StartPeriod = ''01-2024'', calc_EndPeriod = ''12-2024''\<rparr>) \<and>
                  (case EndDate row of None \<Rightarrow> True
                   | Some e \<Rightarrow> bytewise_le (calc_StartPeriod
                    \<lparr>calc_UserID = Some ex_user, calc_ServiceName = Some ''Spotify'',
                     calc_StartPeriod = ''01-2024'', calc_EndPeriod = ''12-2024''\<rparr>) e) \<and>
                  (calc_UserID
                    \<lparr>calc_UserID = Some ex_user, calc_ServiceName = Some ''Spotify'',
                     calc_StartPeriod = ''01-2024'', calc_EndPeriod = ''12-2024''\<rparr> = None \<or>
                   calc_UserID
                    \<lparr>calc_UserID = Some ex_user, calc_ServiceName = Some ''Spotify'',
                     calc_StartPeriod = ''01-2024'', calc_EndPeriod = ''12-2024''\<rparr>
                     = Some (UserID row)) \<and>
                  (calc_ServiceName
                    \<lparr>calc_UserID = Some ex_user, calc_ServiceName = Some ''Spotify'',
                     calc_StartPeriod = ''01-2024'', calc_EndPeriod = ''12-2024''\<rparr> = None \<or>
                   calc_ServiceName
                    \<lparr>calc_UserID = Some ex_user, calc_ServiceName = Some ''Spotify'',
                     calc_StartPeriod = ''01-2024'', calc_EndPeriod = ''12-2024''\<rparr> = Some [] \<or>
                   calc_ServiceName
                    \<lparr>calc_UserID = Some ex_user, calc_ServiceName = Some ''Spotify'',
                     calc_StartPeriod = ''01-2024'', calc_EndPeriod = ''12-2024''\<rparr>
                     = Some (ServiceName row)))
            (map snd (ex_store ex_user)))))"
    using cf by blast
  have dsum0: "Repo_CalculateTotalCost bytewise_le (map snd (ex_store ex_user))
     (ex_window ''01-2024'' ''12-2024'')
     = Inr (sum_list (map Price
         (filter (\<lambda>row. bytewise_le (StartDate row)
                    (calc_EndPeriod (ex_window ''01-2024'' ''12-2024'')) \<and>
                  (case EndDate row of None \<Rightarrow> True
                   | Some e \<Rightarrow> bytewise_le
                       (calc_StartPeriod (ex_window ''01-2024'' ''12-2024'')) e) \<and>
                  (calc_UserID (ex_window ''01-2024'' ''12-2024'') = None \<or>
                   calc_UserID (ex_window ''01-2024'' ''12-2024'') = Some (UserID row)) \<and>
                  (calc_ServiceName (ex_window ''01-2024'' ''12-2024'') = None \<or>
                   calc_ServiceName (ex_window ''01-2024'' ''12-2024'') = Some [] \<or>
                   calc_ServiceName (ex_window ''01-2024'' ''12-2024'')
                     = Some (ServiceName row)))
            (map snd (ex_store ex_user)))))"
    using cn by blast
  have dcalc: "Repo_CalculateTotalCost bytewise_le (map snd (ex_store ex_user))
     \<lparr>calc_UserID = Some ex_user, calc_ServiceName = Some ''Spotify'',
      calc_StartPeriod = ''01-2024'', calc_EndPeriod = ''12-2024''\<rparr> = Inr 199"
    unfolding dsum
    by (simp add: ex_store_eq ex_Netflix_def ex_Spotify_def)
  have dcalc0: "Repo_CalculateTotalCost bytewise_le (map snd (ex_store ex_user))
     (ex_window ''01-2024'' ''12-2024'') = Inr 899"
    unfolding dsum0
    by (simp add: ex_store_eq ex_Netflix_def ex_Spotify_def ex_window_def)
  have mv: "Mock_CalculateTotalCost ex_uuid_Parse (ex_store ex_user)
     ''60601fee-2bf1-4721-ae6f-7636e79a0cba'' ''Spotify'' ''01-2024'' ''12-2024'' = Inr 2189"
    unfolding mcalc
    by (simp add: ex_store_eq ex_costs ex_uuid_Parse_def) (simp add: ex_Netflix_def ex_Spotify_def)
  have mv0: "Mock_CalculateTotalCost ex_uuid_Parse (ex_store ex_user) [] []
     ''01-2024'' ''12-2024'' = Inr 10589"
    unfolding mcalc0 by (simp add: ex_store_eq ex_costs)
  show ?thesis
    using h w both neither dboth dneither mv mv0 dcalc dcalc0
    by (simp add: ex_store_eq ex_Netflix_def ex_Spotify_def)
qed

section \<open>A reversed window\<close>

lemma spec_record_cost_reversed:
  assumes "month_index E < month_index S"
  shows "spec_record_cost S E sub = 0"
proof (cases "record_range sub")
  case None
  then show ?thesis by (simp add: spec_record_cost_def)
next
  case (Some p)
  obtain s e where p: "p = (s, e)" by (cases p)
  have "spec_months_overlap S E s e \<le> 0"
    using assms by (cases e) (auto simp: spec_months_overlap_def Let_def)
  then show ?thesis
    by (simp add: spec_record_cost_def Some p Let_def)
qed

lemma Mock_Cost_loop_reversed:
  assumes "valid_month S" "valid_month E" "After S E"
  shows "Mock_Cost_loop S E subs 0 = 0"
proof -
  have "month_index E < month_index S"
    using assms After_index by blast
  then have "sum_list (map (spec_record_cost S E) subs) = 0"
    by (induction subs) (simp_all add: spec_record_cost_reversed)
  then show ?thesis
    by (simp add: Mock_Cost_loop_sum [OF assms(1,2)])
qed

text \<open>
  Claim C2, as stated: the calculator never returns an error for well-formed month
  values, and a reversed window yields the total 0. \<^verbatim>\<open>CalculateTotalCost\<close> refuses
  a reversed window: it tests \<^verbatim>\<open>startDate.After(endDate)\<close> before it reads any
  record and returns "start period cannot be after end period".
\<close>

theorem C2_reversed_window_counterexample:
  "time_Parse ''02-2024'' = Some (Date 2024 2) \<and>
   time_Parse ''01-2024'' = Some (Date 2024 1) \<and>
   Mock_CalculateTotalCost ex_uuid_Parse (ex_store ex_user) [] [] ''02-2024'' ''01-2024''
     = Inl ErrStartAfterEnd \<and>
   Mock_CalculateTotalCost ex_uuid_Parse (ex_store ex_user) [] [] ''02-2024'' ''01-2024''
     \<noteq> Inr 0"
  by (simp add: Mock_CalculateTotalCost_def time_Parse_examples After_def)

text \<open>
  Claim C2, amended. For well-formed month values the in-memory
  \<^verbatim>\<open>CalculateTotalCost\<close> returns an error exactly when the window is reversed, and
  the error is "start period cannot be after end period"; when the start period is
  not after the end period it returns a total, whatever the records and filters
  are. The guard stands before the loop over the records; that loop has no error
  of its own, and on a reversed window it would total 0 for every list of records.
\<close>

theorem C2_window_error:
  assumes "time_Parse startPeriod = Some startDate"
    and "time_Parse endPeriod = Some endDate"
  shows "(After startDate endDate \<longrightarrow>
            Mock_CalculateTotalCost P r userID serviceName startPeriod endPeriod
              = Inl ErrStartAfterEnd \<and>
            Mock_Cost_loop startDate endDate subs 0 = 0) \<and>
         (\<not> After startDate endDate \<longrightarrow>
            (\<exists>total. Mock_CalculateTotalCost P r userID serviceName startPeriod endPeriod
                        = Inr total))"
  using Mock_Calc_window [OF assms]
    Mock_Cost_loop_reversed [OF time_Parse_valid [OF assms(1)] time_Parse_valid [OF assms(2)]]
  by simp

theorem C2_window_error_witness:
  "time_Parse ''02-2024'' = Some (Date 2024 2) \<and>
   time_Parse ''01-2024'' = Some (Date 2024 1) \<and>
   After (Date 2024 2) (Date 2024 1) \<and>
   Mock_CalculateTotalCost ex_uuid_Parse (ex_store ex_user) [] [] ''02-2024'' ''01-2024''
     = Inl ErrStartAfterEnd \<and>
   Mock_Cost_loop (Date 2024 2) (Date 2024 1) (map snd (ex_store ex_user)) 0 = 0 \<and>
   \<not> After (Date 2024 1) (Date 2024 2) \<and>
   (\<exists>total. Mock_CalculateTotalCost ex_uuid_Parse (ex_store ex_user) [] [] ''01-2024'' ''02-2024''
               = Inr total)"
proof -
  have a: "After (Date 2024 2) (Date 2024 1)" and b: "\<not> After (Date 2024 1) (Date 2024 2)"
    by (simp_all add: After_def)
  show ?thesis
    using a b
      C2_window_error [OF time_Parse_02_2024 time_Parse_01_2024,
        of ex_uuid_Parse "ex_store ex_user" "[]" "[]" "map snd (ex_store ex_user)"]
      C2_window_error [OF time_Parse_01_2024 time_Parse_02_2024,
        of ex_uuid_Parse "ex_store ex_user" "[]" "[]" "map snd (ex_store ex_user)"]
    by (simp add: time_Parse_examples)
qed

section \<open>A user filter that is not a UUID\<close>

text \<open>
  Claim C9. When the in-memory list operation is given a non-empty user filter that
  \<^verbatim>\<open>uuid.Parse\<close> refuses, every record is passed over: the result is the empty
  list and no error, so a calculation with such a filter (over a window that parses
  and is not reversed) totals 0, and it never returns any other total.
\<close>

theorem C9_unparsable_user_filter:
  assumes "userID \<noteq> []" and "P userID = None"
  shows "Mock_List P r userID serviceName = Inr [] \<and>
         (time_Parse startPeriod = Some startDate \<and> time_Parse endPeriod = Some endDate \<and>
          \<not> After startDate endDate \<longrightarrow>
            Mock_CalculateTotalCost P r userID serviceName startPeriod endPeriod = Inr 0) \<and>
         (\<forall>total. Mock_CalculateTotalCost P r userID serviceName startPeriod endPeriod = Inr total
            \<longrightarrow> total = 0)"
proof -
  have l: "Mock_List P r userID serviceName = Inr []"
    using assms by (simp add: Mock_List_filter)
  then show ?thesis
    by (auto simp: Mock_CalculateTotalCost_def split: option.splits if_splits)
qed

theorem C9_unparsable_user_filter_witness:
  "''not-a-uuid'' \<noteq> [] \<and> ex_uuid_Parse ''not-a-uuid'' = None \<and>
   Mock_List ex_uuid_Parse (ex_store ex_user) ''not-a-uuid'' [] = Inr [] \<and>
   time_Parse ''01-2024'' = Some (Date 2024 1) \<and>
   time_Parse ''12-2024'' = Some (Date 2024 12) \<and>
   \<not> After (Date 2024 1) (Date 2024 12) \<and>
   Mock_CalculateTotalCost ex_uuid_Parse (ex_store ex_user) ''not-a-uuid'' []
     ''01-2024'' ''12-2024'' = Inr 0"
proof -
  have h: "''not-a-uuid'' \<noteq> []" "ex_uuid_Parse ''not-a-uuid'' = None"
    by (simp_all add: ex_uuid_Parse_def)
  have w: "time_Parse ''01-2024'' = Some (Date 2024 1) \<and>
           time_Parse ''12-2024'' = Some (Date 2024 12) \<and>
           \<not> After (Date 2024 1) (Date 2024 12)"
    by (simp add: time_Parse_examples After_def)
  show ?thesis
    using h w
      C9_unparsable_user_filter [where userID = "''not-a-uuid''" and P = ex_uuid_Parse
        and r = "ex_store ex_user" and serviceName = "[]"
        and startPeriod = "''01-2024''" and startDate = "Date 2024 1"
        and endPeriod = "''12-2024''" and endDate = "Date 2024 12"]
    by blast
qed

section \<open>Stored records with malformed dates\<close>

lemma Mock_Calc_drop_bad_start:
  assumes "time_Parse (StartDate sub) = None"
  shows "Mock_CalculateTotalCost P (r1 @ (k, sub) # r2) userID serviceName startPeriod endPeriod
           = Mock_CalculateTotalCost P (r1 @ r2) userID serviceName startPeriod endPeriod"
  using assms
  by (simp add: Mock_CalculateTotalCost_def Mock_List_filter Mock_Cost_loop_append
        split: option.splits)

lemma Mock_Calc_bad_end_open:
  assumes "EndDate sub = Some x" "time_Parse x = None"
  shows "Mock_CalculateTotalCost P (r1 @ (k, sub) # r2) userID serviceName startPeriod endPeriod
           = Mock_CalculateTotalCost P (r1 @ (k, sub\<lparr>EndDate := None\<rparr>) # r2)
               userID serviceName startPeriod endPeriod"
  using assms
  by (simp add: Mock_CalculateTotalCost_def Mock_List_filter Mock_Cost_loop_append Let_def
        split: option.splits)

lemma ex_store_total:
  "Mock_CalculateTotalCost P (ex_store u) [] [] ''01-2024'' ''12-2024'' = Inr 10589"
  by (simp add: Mock_CalculateTotalCost_def Mock_List_def ex_store_eq ex_Netflix_def
       ex_Spotify_def time_Parse_examples After_def Before_def go_Year_def go_Month_def
       Let_def word_sless_alt)

text \<open>
  Claim C10. The in-memory calculation never fails because of a stored record: for
  a window that parses and is not reversed it returns a total whatever the records
  hold. A record whose start date does not parse adds nothing (the total is that of
  the store without it), and a record whose end date does not parse counts as the
  same record with no end date.
\<close>

theorem C10_malformed_records:
  "(time_Parse startPeriod = Some startDate \<and> time_Parse endPeriod = Some endDate \<and>
    \<not> After startDate endDate \<longrightarrow>
      (\<exists>total. Mock_CalculateTotalCost P r userID serviceName startPeriod endPeriod = Inr total)) \<and>
   (time_Parse (StartDate sub) = None \<longrightarrow>
      Mock_CalculateTotalCost P (r1 @ (k, sub) # r2) userID serviceName startPeriod endPeriod
        = Mock_CalculateTotalCost P (r1 @ r2) userID serviceName startPeriod endPeriod) \<and>
   (EndDate sub = Some x \<and> time_Parse x = None \<longrightarrow>
      Mock_CalculateTotalCost P (r1 @ (k, sub) # r2) userID serviceName startPeriod endPeriod
        = Mock_CalculateTotalCost P (r1 @ (k, sub\<lparr>EndDate := None\<rparr>) # r2)
            userID serviceName startPeriod endPeriod)"
  using Mock_Calc_window(2) [of startPeriod startDate endPeriod endDate P r userID serviceName]
    Mock_Calc_drop_bad_start [of sub P r1 k r2 userID serviceName startPeriod endPeriod]
    Mock_Calc_bad_end_open [of sub x P r1 k r2 userID serviceName startPeriod endPeriod]
  by blast

theorem C10_malformed_records_witness:
  "time_Parse ''01-2024'' = Some (Date 2024 1) \<and>
   time_Parse ''12-2024'' = Some (Date 2024 12) \<and>
   \<not> After (Date 2024 1) (Date 2024 12) \<and>
   (\<exists>total. Mock_CalculateTotalCost ex_uuid_Parse
               (ex_store ex_user @ [(''3'', (ex_Netflix ex_user)\<lparr>ID := 3, StartDate := ''2024-01''\<rparr>)])
               [] [] ''01-2024'' ''12-2024'' = Inr total) \<and>
   time_Parse (StartDate ((ex_Netflix ex_user)\<lparr>ID := 3, StartDate := ''2024-01''\<rparr>)) = None \<and>
   Mock_CalculateTotalCost ex_uuid_Parse
     (ex_store ex_user @ [(''3'', (ex_Netflix ex_user)\<lparr>ID := 3, StartDate := ''2024-01''\<rparr>)])
     [] [] ''01-2024'' ''12-2024'' = Inr 10589 \<and>
   EndDate ((ex_Netflix ex_user)\<lparr>ID := 3, EndDate := Some ''13-2024''\<rparr>) = Some ''13-2024'' \<and>
   time_Parse ''13-2024'' = None \<and>
   Mock_CalculateTotalCost ex_uuid_Parse
     (ex_store ex_user @ [(''3'', (ex_Netflix ex_user)\<lparr>ID := 3, EndDate := Some ''13-2024''\<rparr>)])
     [] [] ''01-2024'' ''12-2024'' = Inr 18989"
proof -
  have w: "time_Parse ''01-2024'' = Some (Date 2024 1) \<and>
           time_Parse ''12-2024'' = Some (Date 2024 12) \<and>
           \<not> After (Date 2024 1) (Date 2024 12)"
    by (simp add: time_Parse_examples After_def)
  have b1: "time_Parse (StartDate ((ex_Netflix ex_user)\<lparr>ID := 3, StartDate := ''2024-01''\<rparr>)) = None"
    by (simp add: time_Parse_examples)
  have b2: "EndDate ((ex_Netflix ex_user)\<lparr>ID := 3, EndDate := Some ''13-2024''\<rparr>) = Some ''13-2024'' \<and>
            time_Parse ''13-2024'' = None"
    by (simp add: time_Parse_examples)
  note t1 = C10_malformed_records [of "''01-2024''" "Date 2024 1" "''12-2024''" "Date 2024 12"
      ex_uuid_Parse
      "ex_store ex_user @ [(''3'', (ex_Netflix ex_user)\<lparr>ID := 3, StartDate := ''2024-01''\<rparr>)]"
      "[]" "[]" "(ex_Netflix ex_user)\<lparr>ID := 3, StartDate := ''2024-01''\<rparr>"
      "ex_store ex_user" "''3''" "[]" "''13-2024''"]
  note t2 = C10_malformed_records [of "''01-2024''" "Date 2024 1" "''12-2024''" "Date 2024 12"
      ex_uuid_Parse
      "ex_store ex_user @ [(''3'', (ex_Netflix ex_user)\<lparr>ID := 3, EndDate := Some ''13-2024''\<rparr>)]"
      "[]" "[]" "(ex_Netflix ex_user)\<lparr>ID := 3, EndDate := Some ''13-2024''\<rparr>"
      "ex_store ex_user" "''3''" "[]" "''13-2024''"]
  have ex: "\<exists>total. Mock_CalculateTotalCost ex_uuid_Parse
               (ex_store ex_user @ [(''3'', (ex_Netflix ex_user)\<lparr>ID := 3, StartDate := ''2024-01''\<rparr>)])
               [] [] ''01-2024'' ''12-2024'' = Inr total"
    using t1 w by blast
  have d1: "Mock_CalculateTotalCost ex_uuid_Parse
     (ex_store ex_user @ [(''3'', (ex_Netflix ex_user)\<lparr>ID := 3, StartDate := ''2024-01''\<rparr>)])
     [] [] ''01-2024'' ''12-2024''
     = Mock_CalculateTotalCost ex_uuid_Parse (ex_store ex_user @ []) [] [] ''01-2024'' ''12-2024''"
    using t1 b1 by blast
  have d2: "Mock_CalculateTotalCost ex_uuid_Parse
     (ex_store ex_user @ [(''3'', (ex_Netflix ex_user)\<lparr>ID := 3, EndDate := Some ''13-2024''\<rparr>)])
     [] [] ''01-2024'' ''12-2024''
     = Mock_CalculateTotalCost ex_uuid_Parse
         (ex_store ex_user @ [(''3'', (ex_Netflix ex_user)\<lparr>ID := 3, EndDate := Some ''13-2024'', EndDate := None\<rparr>)])
         [] [] ''01-2024'' ''12-2024''"
    using t2 b2 by blast
  have v2: "Mock_CalculateTotalCost ex_uuid_Parse
         (ex_store ex_user @ [(''3'', (ex_Netflix ex_user)\<lparr>ID := 3, EndDate := Some ''13-2024'', EndDate := None\<rparr>)])
         [] [] ''01-2024'' ''12-2024'' = Inr 18989"
    by (simp add: Mock_CalculateTotalCost_def Mock_List_def ex_store_eq ex_Netflix_def
       ex_Spotify_def time_Parse_examples After_def Before_def go_Year_def go_Month_def
       Let_def word_sless_alt)
  show ?thesis
    using w b1 b2 ex d1 d2 v2 ex_store_total [of ex_uuid_Parse ex_user] by simp
qed

section \<open>The scenario of TestCalculateTotalCost\<close>

text \<open>
  Claim C4. The store built by creating Netflix (700, from 01-2024) and Spotify
  (199, from 02-2024) for one user, both without an end date, holds exactly those
  two records, and the calculation for that user over 01-2024 to 12-2024 returns
  10589, which is 700 * 12 + 199 * 11.
\<close>

theorem C4_end_to_end:
  assumes "uidS \<noteq> []" and "P uidS = Some u"
  shows "map (\<lambda>s. (ServiceName s, Price s, UserID s, StartDate s, EndDate s))
           (map snd (ex_store u))
           = [(''Netflix'', 700, u, ''01-2024'', None), (''Spotify'', 199, u, ''02-2024'', None)] \<and>
         Mock_CalculateTotalCost P (ex_store u) uidS [] ''01-2024'' ''12-2024'' = Inr 10589 \<and>
         (10589 :: go_int) = 700 * 12 + 199 * 11"
  using assms
  by (simp add: Mock_CalculateTotalCost_def Mock_List_def ex_store_eq ex_Netflix_def
       ex_Spotify_def time_Parse_examples After_def Before_def go_Year_def go_Month_def
       Let_def word_sless_alt)

theorem C4_end_to_end_witness:
  "''60601fee-2bf1-4721-ae6f-7636e79a0cba'' \<noteq> [] \<and>
   ex_uuid_Parse ''60601fee-2bf1-4721-ae6f-7636e79a0cba'' = Some ex_user \<and>
   Mock_CalculateTotalCost ex_uuid_Parse (ex_store ex_user)
     ''60601fee-2bf1-4721-ae6f-7636e79a0cba'' [] ''01-2024'' ''12-2024'' = Inr 10589"
proof -
  have h: "''60601fee-2bf1-4721-ae6f-7636e79a0cba'' \<noteq> []"
    "ex_uuid_Parse ''60601fee-2bf1-4721-ae6f-7636e79a0cba'' = Some ex_user"
    by (simp_all add: ex_uuid_Parse_def)
  show ?thesis
    using h
      C4_end_to_end [where uidS = "''60601fee-2bf1-4721-ae6f-7636e79a0cba''"
        and P = ex_uuid_Parse and u = ex_user]
    by blast
qed

section \<open>The calculation of the database repository\<close>

lemma Repo_Calc_single_row:
  "calc_UserID req = None \<Longrightarrow> calc_ServiceName req = None \<Longrightarrow>
   Repo_CalculateTotalCost le [row] req =
     Inr (if le (StartDate row) (calc_EndPeriod req) \<and>
             (case EndDate row of None \<Rightarrow> True | Some e \<Rightarrow> le (calc_StartPeriod req) e)
          then Price row else 0)"
  by (simp add: Repo_CalculateTotalCost_def rows_where_def SUM_price_def Let_def)

lemma Mock_open_ended_counts_window:
  assumes "time_Parse (StartDate sub) = Some s" and "EndDate sub = None"
    and "time_Parse startPeriod = Some S" and "time_Parse endPeriod = Some E"
    and "\<not> After s S" and "\<not> After S E"
  shows "Mock_CalculateTotalCost P [(k, sub)] [] [] startPeriod endPeriod
           = Inr (Price sub * of_int (month_index E - month_index S + 1))"
proof -
  have v: "valid_month s" "valid_month S" "valid_month E"
    using assms by (auto dest: time_Parse_valid)
  have "month_index s \<le> month_index S" "month_index S \<le> month_index E"
    using assms(5,6) After_index v by force+
  then have "spec_record_cost S E sub = Price sub * of_int (month_index E - month_index S + 1)"
    using assms(1,2) v by (intro spec_record_cost_open_ended) auto
  then show ?thesis
    using assms(3,4,6) by (simp add: Mock_total_is_spec_sum)
qed

text \<open>
  Claim C1: the cost calculation returns the sum, over the records whose range
  meets the window, of the price times the months of overlap. The in-memory
  repository does (\<^verbatim>\<open>Mock_total_is_spec_sum\<close>). The database repository asks for
  \<^verbatim>\<open>SUM(price)\<close>: for one open-ended record of price 700 that starts in 01-2024
  and the window 01-2024 to 12-2024 it returns 700 when the collation puts the
  text 01-2024 at or before 12-2024 (0 otherwise), where the in-memory repository
  and the claim give 700 * 12 = 8400.
\<close>

theorem C1_database_total:
  "Repo_CalculateTotalCost le [(ex_Netflix ex_user)\<lparr>ID := 1\<rparr>] (ex_window ''01-2024'' ''12-2024'')
     = Inr (if le ''01-2024'' ''12-2024'' then 700 else 0) \<and>
   Repo_CalculateTotalCost bytewise_le [(ex_Netflix ex_user)\<lparr>ID := 1\<rparr>]
       (ex_window ''01-2024'' ''12-2024'') = Inr 700 \<and>
   Mock_CalculateTotalCost P [(''1'', (ex_Netflix ex_user)\<lparr>ID := 1\<rparr>)] [] []
       ''01-2024'' ''12-2024'' = Inr 8400 \<and>
   (8400 :: go_int) = 700 * 12"
  by (simp add: Repo_Calc_single_row ex_window_def ex_Netflix_def
       Mock_CalculateTotalCost_def Mock_List_def time_Parse_examples After_def Before_def
       go_Year_def go_Month_def Let_def word_sless_alt)

text \<open>
  Claim C3: for a subscription with no end date and a window that starts at or
  after its start, the calculation counts every month of the window at the price.
  The in-memory repository does (\<^verbatim>\<open>Mock_open_ended_counts_window\<close>). The database
  repository compares the date texts and sums the price once: for an open-ended
  record of price 199 that starts in 12-2023 and the window 01-2024 to 06-2024 it
  returns 199 or 0, as the collation orders the texts 12-2023 and 06-2024 (0 in
  the order by character code), where the in-memory repository and the claim give
  199 * 6 = 1194.
\<close>

theorem C3_database_open_ended:
  "Repo_CalculateTotalCost le
       [(ex_Spotify ex_user)\<lparr>ID := 1, StartDate := ''12-2023''\<rparr>]
       (ex_window ''01-2024'' ''06-2024'')
     = Inr (if le ''12-2023'' ''06-2024'' then 199 else 0) \<and>
   Repo_CalculateTotalCost bytewise_le
       [(ex_Spotify ex_user)\<lparr>ID := 1, StartDate := ''12-2023''\<rparr>]
       (ex_window ''01-2024'' ''06-2024'') = Inr 0 \<and>
   Mock_CalculateTotalCost P
       [(''1'', (ex_Spotify ex_user)\<lparr>ID := 1, StartDate := ''12-2023''\<rparr>)] [] []
       ''01-2024'' ''06-2024'' = Inr 1194 \<and>
   (1194 :: go_int) = 199 * 6"
  by (simp add: Repo_Calc_single_row ex_window_def ex_Spotify_def
       Mock_CalculateTotalCost_def Mock_List_def time_Parse_examples After_def Before_def
       go_Year_def go_Month_def Let_def word_sless_alt)

section \<open>Update\<close>

lemma Repo_Update_table:
  "snd (Repo_Update db idN req now) =
     map (\<lambda>row. if ID row = idN then Repo_set_row req now row else row) db"
  by (cases "upd_Price req")
     (auto simp: Repo_Update_def Let_def Repo_set_row_def)

lemma rows_where_ID_present:
  "row \<in> set db \<Longrightarrow> rows_where [\<lambda>r. ID r = ID row] db \<noteq> []"
  by (auto simp: rows_where_def filter_empty_conv)

lemma Repo_Update_ok:
  "row \<in> set db \<Longrightarrow> fst (Repo_Update db (ID row) req now) = None"
  using rows_where_ID_present [of row db]
  by (simp add: Repo_Update_def Let_def)

lemma map_of_put: "map_of (put k v r) = (map_of r)(k \<mapsto> v)"
  by (induction r) (auto simp: fun_eq_iff)

lemma Mock_Update_replaces:
  "map_of r idS = Some old \<Longrightarrow>
     Mock_GetByID (snd (Mock_Update r idS subscription now)) idS
       = Inr (subscription\<lparr>ID := fst (Atoi idS), UpdatedAt := now\<rparr>)"
  by (simp add: Mock_Update_def Mock_GetByID_def Let_def map_of_put)

lemma ex_update:
  "Repo_Update [ex_seed_Netflix, (ex_Spotify ex_user)\<lparr>ID := 2\<rparr>] 1 ex_price_only 9
     = (None, [ex_seed_Netflix\<lparr>Price := 649, EndDate := None, UpdatedAt := 9\<rparr>,
               (ex_Spotify ex_user)\<lparr>ID := 2\<rparr>])"
  by (simp add: Repo_Update_def rows_where_def ex_seed_Netflix_def ex_price_only_def
       ex_Spotify_def Let_def)

text \<open>
  What the database update does to every row, for any table and any request: the
  rows keep their number, their order, their \<^verbatim>\<open>id\<close> and their \<^verbatim>\<open>created_at\<close>; a
  row with another id is untouched; in a row with the id the service name, the
  price, the user id and the start date change only where the request carries a
  value, \<^verbatim>\<open>updated_at\<close> is the time of the call, and \<^verbatim>\<open>end_date\<close> is whatever the
  request holds, NULL when the request holds none.
\<close>

lemma Repo_Update_frame:
  assumes "Repo_Update db idN req now = (err, db')" and "i < length db"
  shows "length db' = length db \<and>
         ID (db' ! i) = ID (db ! i) \<and>
         CreatedAt (db' ! i) = CreatedAt (db ! i) \<and>
         (ID (db ! i) \<noteq> idN \<longrightarrow> db' ! i = db ! i) \<and>
         (ID (db ! i) = idN \<longrightarrow>
            err = None \<and>
            ServiceName (db' ! i) =
              (if upd_ServiceName req = [] then ServiceName (db ! i) else upd_ServiceName req) \<and>
            Price (db' ! i) =
              (case upd_Price req of None \<Rightarrow> Price (db ! i) | Some p \<Rightarrow> p) \<and>
            UserID (db' ! i) =
              (if upd_UserID req = uuid_Nil then UserID (db ! i) else upd_UserID req) \<and>
            StartDate (db' ! i) =
              (if upd_StartDate req = [] then StartDate (db ! i) else upd_StartDate req) \<and>
            EndDate (db' ! i) = upd_EndDate req \<and>
            UpdatedAt (db' ! i) = now)"
proof -
  have db': "db' = map (\<lambda>row. if ID row = idN then Repo_set_row req now row else row) db"
    using assms(1) Repo_Update_table [of db idN req now] by simp
  have err: "err = fst (Repo_Update db idN req now)"
    using assms(1) by simp
  have ok: "ID (db ! i) = idN \<longrightarrow> err = None"
    using Repo_Update_ok [of "db ! i" db req now] assms(2) by (auto simp: err)
  have row: "db' ! i = (if ID (db ! i) = idN then Repo_set_row req now (db ! i) else db ! i)"
    using assms(2) by (simp add: db')
  have len: "length db' = length db"
    by (simp add: db')
  show ?thesis
    using ok len by (simp add: row Repo_set_row_def)
qed

lemma Repo_Update_clears_end_date:
  assumes "row \<in> set db" and "upd_EndDate req = None"
  shows "\<forall>row' \<in> set (snd (Repo_Update db (ID row) req now)).
           ID row' = ID row \<longrightarrow> EndDate row' = None"
  using assms(2) by (auto simp: Repo_Update_table Repo_set_row_def)

text \<open>
  Claim C6. Update changes only the fields the request supplies, and every field
  the request omits, the end date included, keeps its prior value. The database
  repository guards the service name, the price, the user id and the start date,
  and writes \<^verbatim>\<open>end_date\<close> on every update with no guard. On the seeded row 1
  (Netflix, 599, from 01-2023 to 01-2024) a request that carries only the price
  649 succeeds, changes the price, keeps the service name, the user id and the
  start date, and clears the end date 01-2024, which the request never named.
\<close>

theorem C6_update_clears_end_date:
  "ex_seed_Netflix \<in> set [ex_seed_Netflix] \<and>
   ID ex_seed_Netflix = 1 \<and>
   upd_ServiceName ex_price_only = [] \<and>
   upd_Price ex_price_only = Some 649 \<and>
   upd_UserID ex_price_only = uuid_Nil \<and>
   upd_StartDate ex_price_only = [] \<and>
   upd_EndDate ex_price_only = None \<and>
   EndDate ex_seed_Netflix = Some ''01-2024'' \<and>
   Repo_Update [ex_seed_Netflix] 1 ex_price_only 9
     = (None, [ex_seed_Netflix\<lparr>Price := 649, EndDate := None, UpdatedAt := 9\<rparr>]) \<and>
   ServiceName (hd (snd (Repo_Update [ex_seed_Netflix] 1 ex_price_only 9)))
     = ServiceName ex_seed_Netflix \<and>
   UserID (hd (snd (Repo_Update [ex_seed_Netflix] 1 ex_price_only 9)))
     = UserID ex_seed_Netflix \<and>
   StartDate (hd (snd (Repo_Update [ex_seed_Netflix] 1 ex_price_only 9)))
     = StartDate ex_seed_Netflix \<and>
   EndDate (hd (snd (Repo_Update [ex_seed_Netflix] 1 ex_price_only 9))) = None \<and>
   EndDate (hd (snd (Repo_Update [ex_seed_Netflix] 1 ex_price_only 9))) \<noteq> EndDate ex_seed_Netflix"
  by (simp add: Repo_Update_def rows_where_def ex_seed_Netflix_def ex_price_only_def Let_def)

section \<open>Identifiers\<close>

lemma digit_cases:
  "d < 10 \<Longrightarrow>
     d = 0 \<or> d = 1 \<or> d = 2 \<or> d = 3 \<or> d = 4 \<or> d = 5 \<or> d = 6 \<or> d = 7 \<or> d = 8 \<or> d = (9::nat)"
  by arith

lemma digitChar_digit: "d < 10 \<Longrightarrow> isDigit (digitChar d) \<and> digitVal (digitChar d) = d"
  using digit_cases [of d] by (auto simp: digitChar_def isDigit_def digitVal_def)

lemma ParseUint_append:
  "ParseUint (xs @ ys) n =
     (case ParseUint xs n of Inl e \<Rightarrow> Inl e | Inr m \<Rightarrow> ParseUint ys m)"
  by (induction xs arbitrary: n) auto

lemma ParseUint_decimal: "n \<le> 2 ^ 64 - 1 \<Longrightarrow> ParseUint (decimal n) 0 = Inr n"
proof (induction n rule: decimal.induct)
  case (1 n)
  show ?case
  proof (cases "n < 10")
    case True
    then show ?thesis
      using digitChar_digit [of n] by (subst decimal.simps) simp
  next
    case False
    have "n mod 10 < 10" by simp
    then have d: "isDigit (digitChar (n mod 10))" "digitVal (digitChar (n mod 10)) = n mod 10"
      using digitChar_digit by blast+
    have "n div 10 \<le> 2 ^ 64 - 1"
      using "1.prems" by simp
    then have ih: "ParseUint (decimal (n div 10)) 0 = Inr (n div 10)"
      using False "1.IH" by simp
    have recompose: "n div 10 * 10 + n mod 10 = n" by simp
    show ?thesis
      using False d "1.prems"
      by (subst decimal.simps) (simp add: ParseUint_append ih recompose)
  qed
qed

lemma decimal_digits: "c \<in> set (decimal n) \<Longrightarrow> isDigit c"
proof (induction n rule: decimal.induct)
  case (1 n)
  show ?case
  proof (cases "n < 10")
    case True
    then show ?thesis
      using 1(2) digitChar_digit [of n] by (subst (asm) decimal.simps) simp
  next
    case False
    have "n mod 10 < 10" by simp
    then have d: "isDigit (digitChar (n mod 10))"
      using digitChar_digit by blast
    show ?thesis
      using False 1 d by (subst (asm) (2) decimal.simps) auto
  qed
qed

lemma decimal_nonempty: "decimal n \<noteq> []"
  by (subst decimal.simps) simp

lemma isDigit_not_sign: "isDigit c \<Longrightarrow> c \<noteq> CHR ''-'' \<and> c \<noteq> CHR ''+''"
  by (auto simp: isDigit_def)

lemma sint_go_range: "- (2 ^ 63) \<le> sint (i :: go_int) \<and> sint i \<le> 2 ^ 63 - 1"
  using sint_ge [of i] sint_lt [of i] by simp

lemma Atoi_Itoa: "Atoi (Itoa i) = (i, None)"
proof (cases "sint i < 0")
  case True
  have "ParseUint (decimal (nat (- sint i))) 0 = Inr (nat (- sint i))"
    using sint_go_range [of i] by (intro ParseUint_decimal) (simp add: nat_le_iff)
  then show ?thesis
    using True sint_go_range [of i] decimal_nonempty [of "nat (- sint i)"]
    by (simp add: Itoa_def Atoi_def Let_def)
next
  case False
  obtain c cs where dec: "decimal (nat (sint i)) = c # cs"
    using decimal_nonempty [of "nat (sint i)"] by (cases "decimal (nat (sint i))") auto
  then have "isDigit c"
    using decimal_digits [of c "nat (sint i)"] by simp
  then have c: "c \<noteq> CHR ''-''" "c \<noteq> CHR ''+''"
    using isDigit_not_sign by blast+
  have "ParseUint (decimal (nat (sint i))) 0 = Inr (nat (sint i))"
    using sint_go_range [of i] by (intro ParseUint_decimal) (simp add: nat_le_iff)
  then have "ParseUint (c # cs) 0 = Inr (nat (sint i))"
    by (simp add: dec)
  then show ?thesis
    using False c sint_go_range [of i]
    by (simp add: Itoa_def Atoi_def Let_def dec del: ParseUint.simps)
qed

lemma map_fst_put:
  "map fst (put k v r) = (if k \<in> fst ` set r then map fst r else map fst r @ [k])"
  by (induction r) force+

lemma distinct_put: "distinct (map fst r) \<Longrightarrow> distinct (map fst (put k v r))"
  by (simp add: map_fst_put)

lemma set_put: "set (put k v r) \<subseteq> insert (k, v) (set r)"
  by (induction r) (auto split: if_splits)

lemma store_inv_alt:
  "store_inv r \<longleftrightarrow> distinct (map fst r) \<and> (\<forall>kv \<in> set r. fst kv = Itoa (ID (snd kv)))"
  by (simp add: store_inv_def)

lemma store_inv_put:
  assumes "store_inv r" "k = Itoa (ID v)"
  shows "store_inv (put k v r)"
proof -
  have "\<forall>kv \<in> set (put k v r). fst kv = Itoa (ID (snd kv))"
    using assms set_put [of k v r] by (fastforce simp: store_inv_alt)
  then show ?thesis
    using assms(1) by (simp add: store_inv_alt distinct_put)
qed

lemma store_inv_filter: "store_inv r \<Longrightarrow> store_inv (filter Q r)"
  by (simp add: store_inv_alt distinct_map_filter)

lemma store_inv_key:
  assumes "store_inv r" "map_of r k = Some v"
  shows "k = Itoa (ID v)"
proof -
  have "(k, v) \<in> set r" using assms(2) by (rule map_of_SomeD)
  then show ?thesis using assms(1) by (fastforce simp: store_inv_alt)
qed

lemma store_inv_Create: "store_inv r \<Longrightarrow> store_inv (snd (Mock_Create r subscription now))"
  by (simp add: Mock_Create_def Let_def store_inv_put)

lemma Mock_Update_keeps_ID:
  assumes "store_inv r" "map_of r idS = Some old"
  shows "Mock_Update r idS subscription now =
           (Inr (subscription\<lparr>ID := ID old, UpdatedAt := now\<rparr>),
            put idS (subscription\<lparr>ID := ID old, UpdatedAt := now\<rparr>) r)"
proof -
  have "idS = Itoa (ID old)" using assms by (rule store_inv_key)
  then have "fst (Atoi idS) = ID old" by (simp add: Atoi_Itoa)
  then show ?thesis using assms(2) by (simp add: Mock_Update_def Let_def)
qed

lemma store_inv_Update:
  assumes inv: "store_inv r"
  shows "store_inv (snd (Mock_Update r idS subscription now))"
proof (cases "map_of r idS")
  case None
  then show ?thesis using inv by (simp add: Mock_Update_def)
next
  case (Some old)
  have k: "idS = Itoa (ID old)" using inv Some by (rule store_inv_key)
  have "store_inv (put idS (subscription\<lparr>ID := ID old, UpdatedAt := now\<rparr>) r)"
    using inv k by (intro store_inv_put) simp_all
  then show ?thesis
    by (simp add: Mock_Update_keeps_ID [OF inv Some])
qed

lemma store_inv_Delete: "store_inv r \<Longrightarrow> store_inv (snd (Mock_Delete r idS))"
  by (cases "map_of r idS") (simp_all add: Mock_Delete_def store_inv_filter)

lemma store_inv_exec: "store_inv r \<Longrightarrow> store_inv (Mock_exec r op)"
  by (cases op) (simp_all add: store_inv_Create store_inv_Update store_inv_Delete)

lemma store_inv_foldl: "store_inv r \<Longrightarrow> store_inv (foldl Mock_exec r ops)"
  by (induction ops arbitrary: r) (simp_all add: store_inv_exec)

lemma store_inv_run: "store_inv (Mock_run ops)"
  by (rule store_inv_foldl [of NewMockSubscriptionRepository ops, folded Mock_run_def])
     (simp add: store_inv_def NewMockSubscriptionRepository_def)

lemma store_inv_distinct_ids:
  assumes "store_inv r"
  shows "distinct (map (\<lambda>kv. ID (snd kv)) r)"
proof -
  have "distinct (map (\<lambda>kv. Itoa (ID (snd kv))) r)"
    using assms unfolding store_inv_def by metis
  then have "distinct (map Itoa (map (\<lambda>kv. ID (snd kv)) r))"
    by (simp add: comp_def)
  then show ?thesis
    by (simp only: distinct_map)
qed

lemma map_of_filter_other:
  "k \<noteq> idS \<Longrightarrow> map_of (filter (\<lambda>kv. fst kv \<noteq> idS) r) k = map_of r k"
  by (induction r) auto

lemma Mock_Create_frame:
  "k \<noteq> Itoa (ID (fst (Mock_Create r subscription now))) \<Longrightarrow>
     map_of (snd (Mock_Create r subscription now)) k = map_of r k"
  by (simp add: Mock_Create_def Let_def map_of_put)

lemma Mock_Update_frame:
  "k \<noteq> idS \<Longrightarrow> map_of (snd (Mock_Update r idS subscription now)) k = map_of r k"
  by (simp add: Mock_Update_def Let_def map_of_put split: option.splits)

lemma Mock_Delete_frame:
  "k \<noteq> idS \<Longrightarrow> map_of (snd (Mock_Delete r idS)) k = map_of r k"
  by (simp add: Mock_Delete_def map_of_filter_other split: option.splits)

lemma Mock_Create_ID:
  "ID (fst (Mock_Create r subscription now)) =
     (if ID subscription = 0 then of_nat (length r) + 1 else ID subscription)"
  by (simp add: Mock_Create_def Let_def)

lemma Mock_Create_stored:
  "map_of (snd (Mock_Create r subscription now))
     (Itoa (ID (fst (Mock_Create r subscription now))))
     = Some (fst (Mock_Create r subscription now))"
  by (simp add: Mock_Create_def Let_def map_of_put)

lemma Mock_Update_run:
  assumes "map_of (Mock_run ops) idS = Some old"
  shows "\<exists>new. fst (Mock_Update (Mock_run ops) idS subscription now) = Inr new \<and>
               ID new = ID old \<and>
               map_of (snd (Mock_Update (Mock_run ops) idS subscription now)) idS = Some new"
  by (simp add: Mock_Update_keeps_ID [OF store_inv_run assms] map_of_put)

lemma ex_run:
  "Mock_run [OpCreate (ex_Netflix ex_user) 1, OpCreate (ex_Spotify ex_user) 2] = ex_store ex_user"
  by (simp add: Mock_run_def ex_store_def)

text \<open>
  After a delete, \<^verbatim>\<open>len(r.subscriptions) + 1\<close> can be an id that is still stored:
  the next create then takes that id and replaces the record that had it.
\<close>

lemma Mock_Create_reuses_id:
  "Mock_run [OpCreate (ex_Netflix ex_user) 1, OpCreate (ex_Spotify ex_user) 2,
             OpDelete ''1'', OpCreate (ex_Netflix ex_user) 3]
     = [(''2'', (ex_Netflix ex_user)\<lparr>ID := 2, CreatedAt := 3, UpdatedAt := 3\<rparr>)]"
  by (simp add: Mock_run_def Mock_Create_def Mock_Delete_def NewMockSubscriptionRepository_def
       Let_def Itoa_1 Itoa_2 ex_Netflix_def ex_Spotify_def)

text \<open>
  Claim C8, as stated: each id is assigned by the store at creation. Create keeps
  a non-zero \<^verbatim>\<open>ID\<close> that the caller passes ("Generate a new ID if not provided"):
  on the same empty store the created record gets 7 or 9, as the caller says.
\<close>

theorem C8_caller_id_counterexample:
  "ID ((ex_Netflix ex_user)\<lparr>ID := 7\<rparr>) \<noteq> 0 \<and>
   ID (fst (Mock_Create NewMockSubscriptionRepository ((ex_Netflix ex_user)\<lparr>ID := 7\<rparr>) 1)) = 7 \<and>
   ID (fst (Mock_Create NewMockSubscriptionRepository ((ex_Netflix ex_user)\<lparr>ID := 9\<rparr>) 1)) = 9 \<and>
   ID (fst (Mock_Create NewMockSubscriptionRepository ((ex_Netflix ex_user)\<lparr>ID := 7\<rparr>) 1))
     \<noteq> ID (fst (Mock_Create NewMockSubscriptionRepository ((ex_Netflix ex_user)\<lparr>ID := 9\<rparr>) 1)) \<and>
   Mock_run [OpCreate ((ex_Netflix ex_user)\<lparr>ID := 7\<rparr>) 1]
     = [(''7'', (ex_Netflix ex_user)\<lparr>ID := 7, CreatedAt := 1, UpdatedAt := 1\<rparr>)]"
  by (simp add: Mock_run_def Mock_Create_def NewMockSubscriptionRepository_def Let_def Itoa_7
       ex_Netflix_def)

text \<open>
  Claim C8, amended. After any sequence of create, update and delete operations on
  the in-memory store, the ids of the stored records are pairwise distinct and each
  record is stored under the decimal text of its id. Create assigns the id itself
  only when the record it is given has none (\<^verbatim>\<open>ID = 0\<close>; the value is then
  \<^verbatim>\<open>len(r.subscriptions) + 1\<close>) and keeps a non-zero id of the caller's; the
  record it returns is stored under that id. Update gives the new record the id of
  the record it replaces, and no create, update or delete changes what is stored
  under another key.
\<close>

theorem C8_ids:
  "distinct (map (\<lambda>kv. ID (snd kv)) (Mock_run ops)) \<and>
   map fst (Mock_run ops) = map (\<lambda>kv. Itoa (ID (snd kv))) (Mock_run ops) \<and>
   ID (fst (Mock_Create r subscription now)) =
     (if ID subscription = 0 then of_nat (length r) + 1 else ID subscription) \<and>
   map_of (snd (Mock_Create r subscription now))
     (Itoa (ID (fst (Mock_Create r subscription now))))
     = Some (fst (Mock_Create r subscription now)) \<and>
   (map_of (Mock_run ops) idS = Some old \<longrightarrow>
      (\<exists>new. fst (Mock_Update (Mock_run ops) idS subscription now) = Inr new \<and>
             ID new = ID old \<and>
             map_of (snd (Mock_Update (Mock_run ops) idS subscription now)) idS = Some new)) \<and>
   (k \<noteq> Itoa (ID (fst (Mock_Create r subscription now))) \<longrightarrow>
      map_of (snd (Mock_Create r subscription now)) k = map_of r k) \<and>
   (k \<noteq> idS \<longrightarrow> map_of (snd (Mock_Update r idS subscription now)) k = map_of r k) \<and>
   (k \<noteq> idS \<longrightarrow> map_of (snd (Mock_Delete r idS)) k = map_of r k)"
proof -
  have "store_inv (Mock_run ops)" by (rule store_inv_run)
  then have keys: "map fst (Mock_run ops) = map (\<lambda>kv. Itoa (ID (snd kv))) (Mock_run ops)"
    unfolding store_inv_def by blast
  show ?thesis
    using store_inv_distinct_ids [OF store_inv_run [of ops]] keys
      Mock_Create_ID [of r subscription now] Mock_Create_stored [of r subscription now]
      Mock_Update_run [of ops idS old subscription now]
      Mock_Create_frame [of k r subscription now]
      Mock_Update_frame [of k idS r subscription now]
      Mock_Delete_frame [of k idS r]
    by blast
qed

theorem C8_ids_witness:
  "map_of (Mock_run [OpCreate (ex_Netflix ex_user) 1, OpCreate (ex_Spotify ex_user) 2]) ''1''
     = Some ((ex_Netflix ex_user)\<lparr>ID := 1, CreatedAt := 1, UpdatedAt := 1\<rparr>) \<and>
   ''2'' \<noteq> ''1'' \<and>
   ''2'' \<noteq> Itoa (ID (fst (Mock_Create (ex_store ex_user) Subscription_zero 9))) \<and>
   distinct (map (\<lambda>kv. ID (snd kv))
     (Mock_run [OpCreate (ex_Netflix ex_user) 1, OpCreate (ex_Spotify ex_user) 2])) \<and>
   (\<exists>new. fst (Mock_Update
                 (Mock_run [OpCreate (ex_Netflix ex_user) 1, OpCreate (ex_Spotify ex_user) 2])
                 ''1'' Subscription_zero 9) = Inr new \<and>
          ID new = ID ((ex_Netflix ex_user)\<lparr>ID := 1, CreatedAt := 1, UpdatedAt := 1\<rparr>)) \<and>
   map_of (snd (Mock_Create (ex_store ex_user) Subscription_zero 9)) ''2''
     = map_of (ex_store ex_user) ''2'' \<and>
   map_of (snd (Mock_Update (ex_store ex_user) ''1'' Subscription_zero 9)) ''2''
     = map_of (ex_store ex_user) ''2'' \<and>
   map_of (snd (Mock_Delete (ex_store ex_user) ''1'')) ''2'' = map_of (ex_store ex_user) ''2'' \<and>
   ID (fst (Mock_Create (ex_store ex_user) Subscription_zero 9)) = 3"
proof -
  have h: "map_of (Mock_run [OpCreate (ex_Netflix ex_user) 1, OpCreate (ex_Spotify ex_user) 2]) ''1''
     = Some ((ex_Netflix ex_user)\<lparr>ID := 1, CreatedAt := 1, UpdatedAt := 1\<rparr>)"
    unfolding ex_run by (simp add: ex_store_eq)
  have k: "''2'' \<noteq> ''1''" by simp
  have z: "ID Subscription_zero = 0" "length (ex_store ex_user) = 2"
    by (simp_all add: Subscription_zero_def ex_store_eq)
  note t = C8_ids [of "[OpCreate (ex_Netflix ex_user) 1, OpCreate (ex_Spotify ex_user) 2]"
      "ex_store ex_user" Subscription_zero 9 "''1''"
      "(ex_Netflix ex_user)\<lparr>ID := 1, CreatedAt := 1, UpdatedAt := 1\<rparr>" "''2''"]
  have c: "ID (fst (Mock_Create (ex_store ex_user) Subscription_zero 9)) = 3"
    using t z by simp
  have k3: "''2'' \<noteq> Itoa (ID (fst (Mock_Create (ex_store ex_user) Subscription_zero 9)))"
    by (simp add: c Itoa_3)
  show ?thesis
    using h k k3 c t by blast
qed

end
